theory Spec2Isabelle
  imports Main "HOL-Library.Char_ord" "HOL-Library.List_Lexorder"
begin

section \<open>Python strings\<close>

text \<open>
  The generator works on Python \<^verbatim>\<open>str\<close> values read from a JSON document. A string is
  modelled as a \<^typ>\<open>string\<close> whose characters are code points below 256 (ASCII and
  Latin-1); \<^verbatim>\<open>len\<close> is \<^const>\<open>length\<close>. The character predicates below give, on that
  range, what Python 3 answers for \<^verbatim>\<open>str.lower\<close>, \<^verbatim>\<open>str.isspace\<close>, \<^verbatim>\<open>str.isdigit\<close>
  and the classes \<^verbatim>\<open>\s\<close>, \<^verbatim>\<open>\d\<close>, \<^verbatim>\<open>\w\<close> of the module \<^verbatim>\<open>re\<close>.
\<close>

definition ord :: "char \<Rightarrow> nat" where
  "ord c = of_char c"

definition is_upper :: "char \<Rightarrow> bool" where
  "is_upper c = (let n = ord c in (65 \<le> n \<and> n \<le> 90) \<or> (192 \<le> n \<and> n \<le> 222 \<and> n \<noteq> 215))"

definition is_lower :: "char \<Rightarrow> bool" where
  "is_lower c = (let n = ord c in (97 \<le> n \<and> n \<le> 122) \<or> (224 \<le> n \<and> n \<le> 254 \<and> n \<noteq> 247))"

text \<open>
  In this range the lower-case form of an upper-case letter lies 32 code points above it
  and the upper-case form of a lower-case letter 32 below: bit 5 is set or cleared. The
  upper-case forms of the three Latin-1 letters 0xB5, 0xDF and 0xFF lie outside the
  modelled range; \<open>upper_char\<close> leaves them unchanged.
\<close>

fun lower_char :: "char \<Rightarrow> char" where
  "lower_char (Char b0 b1 b2 b3 b4 b5 b6 b7) =
     (if is_upper (Char b0 b1 b2 b3 b4 b5 b6 b7) then Char b0 b1 b2 b3 b4 True b6 b7
      else Char b0 b1 b2 b3 b4 b5 b6 b7)"

fun upper_char :: "char \<Rightarrow> char" where
  "upper_char (Char b0 b1 b2 b3 b4 b5 b6 b7) =
     (if is_lower (Char b0 b1 b2 b3 b4 b5 b6 b7) then Char b0 b1 b2 b3 b4 False b6 b7
      else Char b0 b1 b2 b3 b4 b5 b6 b7)"

definition is_space :: "char \<Rightarrow> bool" where
  "is_space c = (let n = ord c in (9 \<le> n \<and> n \<le> 13) \<or> (28 \<le> n \<and> n \<le> 32) \<or> n = 133 \<or> n = 160)"

definition is_decimal :: "char \<Rightarrow> bool" where
  "is_decimal c = (let n = ord c in 48 \<le> n \<and> n \<le> 57)"

definition is_digit_char :: "char \<Rightarrow> bool" where
  \<comment> \<open>\<^verbatim>\<open>str.isdigit\<close> also accepts the superscript digits 0xB2, 0xB3, 0xB9\<close>
  "is_digit_char c = (let n = ord c in (48 \<le> n \<and> n \<le> 57) \<or> n = 178 \<or> n = 179 \<or> n = 185)"

definition is_ascii_letter :: "char \<Rightarrow> bool" where
  "is_ascii_letter c = (let n = ord c in (65 \<le> n \<and> n \<le> 90) \<or> (97 \<le> n \<and> n \<le> 122))"

definition is_word :: "char \<Rightarrow> bool" where
  "is_word c = (let n = ord c in
     (48 \<le> n \<and> n \<le> 57) \<or> (65 \<le> n \<and> n \<le> 90) \<or> (97 \<le> n \<and> n \<le> 122) \<or> n = 95 \<or>
     n = 170 \<or> n = 178 \<or> n = 179 \<or> n = 181 \<or> n = 185 \<or> n = 186 \<or> n = 188 \<or> n = 189 \<or> n = 190 \<or>
     (192 \<le> n \<and> n \<noteq> 215 \<and> n \<noteq> 247))"

definition is_ascii :: "char \<Rightarrow> bool" where
  \<comment> \<open>\<^verbatim>\<open>ord(c) < 128\<close>\<close>
  "is_ascii c = (ord c < 128)"

text \<open>
  The same predicates read off the eight bits of a character (\<open>b0\<close> is the lowest). They
  are proved equal to the definitions above and serve as their code equations, which
  keeps the evaluation of concrete inputs short.
\<close>

definition low_1_to_15 :: "bool \<Rightarrow> bool \<Rightarrow> bool \<Rightarrow> bool \<Rightarrow> bool" where
  "low_1_to_15 b0 b1 b2 b3 = (b0 \<or> b1 \<or> b2 \<or> b3)"

definition low_0_to_10 :: "bool \<Rightarrow> bool \<Rightarrow> bool \<Rightarrow> bool \<Rightarrow> bool" where
  "low_0_to_10 b0 b1 b2 b3 = (\<not> b3 \<or> (\<not> b2 \<and> \<not> (b1 \<and> b0)))"

definition letter_low :: "bool \<Rightarrow> bool \<Rightarrow> bool \<Rightarrow> bool \<Rightarrow> bool \<Rightarrow> bool" where
  \<comment> \<open>the low five bits run from 1 to 26\<close>
  "letter_low b0 b1 b2 b3 b4 = (if b4 then low_0_to_10 b0 b1 b2 b3 else low_1_to_15 b0 b1 b2 b3)"

fun is_upper_bits :: "char \<Rightarrow> bool" where
  "is_upper_bits (Char b0 b1 b2 b3 b4 b5 b6 b7) =
     (if b7 then b6 \<and> \<not> b5 \<and> \<not> (b4 \<and> b2 \<and> b1 \<and> b0)
      else b6 \<and> \<not> b5 \<and> letter_low b0 b1 b2 b3 b4)"

fun is_lower_bits :: "char \<Rightarrow> bool" where
  "is_lower_bits (Char b0 b1 b2 b3 b4 b5 b6 b7) =
     (if b7 then b6 \<and> b5 \<and> \<not> (b4 \<and> b2 \<and> b1 \<and> b0)
      else b6 \<and> b5 \<and> letter_low b0 b1 b2 b3 b4)"

fun is_space_bits :: "char \<Rightarrow> bool" where
  "is_space_bits (Char b0 b1 b2 b3 b4 b5 b6 b7) =
     (if b7 then \<not> b6 \<and> \<not> b4 \<and> \<not> b3 \<and> \<not> b1 \<and> (if b5 then \<not> b2 \<and> \<not> b0 else b2 \<and> b0)
      else \<not> b6 \<and>
        (if b5 then \<not> b4 \<and> \<not> b3 \<and> \<not> b2 \<and> \<not> b1 \<and> \<not> b0
         else if b4 then b3 \<and> b2
         else b3 \<and> (b2 \<or> b1 \<or> b0) \<and> \<not> (b2 \<and> b1)))"

fun is_decimal_bits :: "char \<Rightarrow> bool" where
  "is_decimal_bits (Char b0 b1 b2 b3 b4 b5 b6 b7) =
     (\<not> b7 \<and> \<not> b6 \<and> b5 \<and> b4 \<and> (\<not> b3 \<or> (\<not> b2 \<and> \<not> b1)))"

fun is_digit_char_bits :: "char \<Rightarrow> bool" where
  "is_digit_char_bits (Char b0 b1 b2 b3 b4 b5 b6 b7) =
     (if b7 then \<not> b6 \<and> b5 \<and> b4 \<and> \<not> b2 \<and> (if b3 then \<not> b1 \<and> b0 else b1)
      else \<not> b6 \<and> b5 \<and> b4 \<and> (\<not> b3 \<or> (\<not> b2 \<and> \<not> b1)))"

fun is_ascii_letter_bits :: "char \<Rightarrow> bool" where
  "is_ascii_letter_bits (Char b0 b1 b2 b3 b4 b5 b6 b7) = (\<not> b7 \<and> b6 \<and> letter_low b0 b1 b2 b3 b4)"

fun is_word_bits :: "char \<Rightarrow> bool" where
  "is_word_bits (Char b0 b1 b2 b3 b4 b5 b6 b7) =
     (if b7 then
        (if b6 then \<not> (b4 \<and> \<not> b3 \<and> b2 \<and> b1 \<and> b0)
         else b5 \<and>
           (if b4 then
              (if b3 then (\<not> b2 \<and> (b0 \<noteq> b1)) \<or> (b2 \<and> \<not> (b1 \<and> b0))
               else (\<not> b2 \<and> b1) \<or> (b2 \<and> \<not> b1 \<and> b0))
            else b3 \<and> \<not> b2 \<and> b1 \<and> \<not> b0))
      else if b6 then letter_low b0 b1 b2 b3 b4 \<or> (\<not> b5 \<and> b4 \<and> b3 \<and> b2 \<and> b1 \<and> b0)
      else b5 \<and> b4 \<and> (\<not> b3 \<or> (\<not> b2 \<and> \<not> b1)))"

fun is_ascii_bits :: "char \<Rightarrow> bool" where
  "is_ascii_bits (Char b0 b1 b2 b3 b4 b5 b6 b7) = (\<not> b7)"

definition py_lower :: "string \<Rightarrow> string" where
  "py_lower s = map lower_char s"

definition py_capitalize :: "string \<Rightarrow> string" where
  "py_capitalize s = (case s of [] \<Rightarrow> [] | c # cs \<Rightarrow> upper_char c # map lower_char cs)"

fun startswith :: "string \<Rightarrow> string \<Rightarrow> bool" where
  "startswith s [] = True"
| "startswith [] (p # ps) = False"
| "startswith (c # cs) (p # ps) = (c = p \<and> startswith cs ps)"

definition endswith :: "string \<Rightarrow> string \<Rightarrow> bool" where
  "endswith s p = startswith (rev s) (rev p)"

text \<open>\<open>py_in sub s\<close> is the Python test \<^verbatim>\<open>sub in s\<close> on strings.\<close>

fun py_in :: "string \<Rightarrow> string \<Rightarrow> bool" where
  "py_in sub [] = (sub = [])"
| "py_in sub (c # cs) = (startswith (c # cs) sub \<or> py_in sub cs)"

definition any_in :: "string list \<Rightarrow> string \<Rightarrow> bool" where
  \<comment> \<open>\<^verbatim>\<open>any(keyword in s for keyword in keywords)\<close>\<close>
  "any_in keywords s = (\<exists>k \<in> set keywords. py_in k s)"

text \<open>\<^verbatim>\<open>s.replace(old, new)\<close>: every non-overlapping occurrence, from the left.\<close>

function py_replace :: "string \<Rightarrow> string \<Rightarrow> string \<Rightarrow> string" where
  "py_replace old new [] = (if old = [] then new else [])"
| "py_replace old new (c # cs) =
     (if old = [] then new @ c # py_replace old new cs
      else if startswith (c # cs) old then new @ py_replace old new (drop (length old - 1) cs)
      else c # py_replace old new cs)"
  by pat_completeness auto
termination
  by (relation "measure (\<lambda>(old, new, s). length s)") auto

text \<open>\<^verbatim>\<open>s.split(sep)\<close> for a non-empty separator.\<close>

function split_acc :: "string \<Rightarrow> string \<Rightarrow> string \<Rightarrow> string list" where
  "split_acc sep acc [] = [rev acc]"
| "split_acc sep acc (c # cs) =
     (if sep \<noteq> [] \<and> startswith (c # cs) sep
      then rev acc # split_acc sep [] (drop (length sep - 1) cs)
      else split_acc sep (c # acc) cs)"
  by pat_completeness auto
termination
  by (relation "measure (\<lambda>(sep, acc, s). length s)") auto

definition py_split :: "string \<Rightarrow> string \<Rightarrow> string list" where
  "py_split s sep = split_acc sep [] s"

definition split_first :: "string \<Rightarrow> string \<Rightarrow> string" where
  \<comment> \<open>\<^verbatim>\<open>s.split(sep)[0]\<close>\<close>
  "split_first s sep = hd (py_split s sep)"

definition split_last :: "string \<Rightarrow> string \<Rightarrow> string" where
  \<comment> \<open>\<^verbatim>\<open>s.split(sep)[-1]\<close>\<close>
  "split_last s sep = last (py_split s sep)"

definition rsplit1_first :: "string \<Rightarrow> char \<Rightarrow> string" where
  \<comment> \<open>\<^verbatim>\<open>s.rsplit(c, 1)[0]\<close>: the text before the last \<open>c\<close>, or all of \<open>s\<close> without one\<close>
  "rsplit1_first s c =
     (if c \<in> set s then rev (drop 1 (dropWhile (\<lambda>x. x \<noteq> c) (rev s))) else s)"

definition py_strip :: "string \<Rightarrow> string" where
  \<comment> \<open>\<^verbatim>\<open>s.strip()\<close>\<close>
  "py_strip s = rev (dropWhile is_space (rev (dropWhile is_space s)))"

definition strip_chars :: "string \<Rightarrow> string \<Rightarrow> string" where
  \<comment> \<open>\<^verbatim>\<open>s.strip(chars)\<close>\<close>
  "strip_chars s chars =
     rev (dropWhile (\<lambda>c. c \<in> set chars) (rev (dropWhile (\<lambda>c. c \<in> set chars) s)))"

fun join :: "string \<Rightarrow> string list \<Rightarrow> string" where
  "join sep [] = []"
| "join sep [x] = x"
| "join sep (x # y # ys) = x @ sep @ join sep (y # ys)"

text \<open>Decimal notation of Python's unbounded integers: \<^verbatim>\<open>str(n)\<close> and \<^verbatim>\<open>int(s)\<close>.\<close>

function str_digits :: "int \<Rightarrow> string" where
  "str_digits i =
     (if i < 10 then [''0123456789'' ! nat i]
      else str_digits (i div 10) @ [''0123456789'' ! nat (i mod 10)])"
  by pat_completeness auto
termination
  by (relation "measure nat") auto

definition py_str :: "int \<Rightarrow> string" where
  "py_str i = (if i < 0 then CHR ''-'' # str_digits (- i) else str_digits i)"

definition int_of_decimal :: "string \<Rightarrow> int" where
  "int_of_decimal s = foldl (\<lambda>a c. 10 * a + (of_char c - 48)) 0 s"

abbreviation dq :: char where "dq \<equiv> CHR 0x22"
abbreviation sq :: char where "sq \<equiv> CHR 0x27"
abbreviation backslash :: char where "backslash \<equiv> CHR 0x5C"
abbreviation backtick :: char where "backtick \<equiv> CHR 0x60"
abbreviation newline :: char where "newline \<equiv> CHR 0x0A"

section \<open>Regular expressions of the module \<^verbatim>\<open>re\<close>\<close>

text \<open>
  The patterns of the two scripts use literals, character classes, greedy and lazy
  repetition of a single character class, optional parts, alternatives, capturing groups
  (never nested), fixed-width look-behind, look-ahead, \<^verbatim>\<open>\b\<close>, \<^verbatim>\<open>^\<close> and \<^verbatim>\<open>$\<close>.
  A pattern is a list of items; \<open>rmatch\<close> is the backtracking matcher of \<^verbatim>\<open>re\<close>: it
  returns the first way, in the priority order of the alternatives, to match the whole
  list at the current position. Its state is the text already passed (reversed), the
  text still ahead and the groups captured so far.
\<close>

datatype cset = Any | All | Ch char | ChI char | Digit | NonDigit | Word | Space | Letter
  | Among "char list" | NotAmong "char list" | Union "cset list"

fun cmem :: "cset \<Rightarrow> char \<Rightarrow> bool" where
  "cmem Any c = (c \<noteq> newline)"
| "cmem All c = True"
| "cmem (Ch p) c = (c = p)"
| "cmem (ChI p) c = (lower_char c = lower_char p)"
| "cmem Digit c = is_decimal c"
| "cmem NonDigit c = (\<not> is_decimal c)"
| "cmem Word c = is_word c"
| "cmem Space c = is_space c"
| "cmem Letter c = is_ascii_letter c"
| "cmem (Among ps) c = (c \<in> set ps)"
| "cmem (NotAmong ps) c = (c \<notin> set ps)"
| "cmem (Union cs) c = (\<exists>x \<in> set cs. cmem x c)"

datatype rx = C cset | Star cset | StarL cset | Plus cset | PlusL cset
  | Opt "rx list" | Alt "rx list list" | Grp "rx list" | Close string
  | Behind "cset list" | Ahead "rx list" | WordB | Bol | Eol | Advance nat

fun weight :: "rx \<Rightarrow> nat" where
  "weight (Opt rs) = Suc (sum_list (map weight rs))"
| "weight (Alt rss) = Suc (sum_list (map (\<lambda>rs. Suc (sum_list (map weight rs))) rss))"
| "weight (Grp rs) = Suc (Suc (sum_list (map weight rs)))"
| "weight (Ahead rs) = Suc (sum_list (map weight rs))"
| "weight (Plus cs) = 3"
| "weight (PlusL cs) = 3"
| "weight r = 1"

fun behind_ok :: "cset list \<Rightarrow> string \<Rightarrow> bool" where
  "behind_ok [] pre = True"
| "behind_ok (x # xs) [] = False"
| "behind_ok (x # xs) (c # pre) = (cmem x c \<and> behind_ok xs pre)"

definition at_boundary :: "string \<Rightarrow> string \<Rightarrow> bool" where
  "at_boundary pre s =
     ((case pre of [] \<Rightarrow> False | c # _ \<Rightarrow> is_word c) \<noteq> (case s of [] \<Rightarrow> False | c # _ \<Rightarrow> is_word c))"

text \<open>
  \<open>Behind rcs\<close> holds the character classes of a look-behind from the last one to the
  first, the order in which the text already passed is read; \<open>behind cs\<close> below builds it
  from the classes in pattern order.
  \<open>Close start\<close> ends a group opened when the text \<open>start\<close> was ahead; \<open>Advance n\<close> accepts only
  when fewer than \<open>n\<close> characters are ahead (the match must not be empty).
\<close>

function rmatch :: "rx list \<Rightarrow> string \<Rightarrow> string \<Rightarrow> string list \<Rightarrow> (string \<times> string \<times> string list) option" where
  "rmatch [] pre s caps = Some (pre, s, caps)"
| "rmatch (C cs # k) pre s caps =
     (case s of [] \<Rightarrow> None | c # s' \<Rightarrow> if cmem cs c then rmatch k (c # pre) s' caps else None)"
| "rmatch (Star cs # k) pre s caps =
     (case s of [] \<Rightarrow> rmatch k pre s caps
      | c # s' \<Rightarrow>
          if cmem cs c
          then (case rmatch (Star cs # k) (c # pre) s' caps of
                  Some r \<Rightarrow> Some r | None \<Rightarrow> rmatch k pre s caps)
          else rmatch k pre s caps)"
| "rmatch (StarL cs # k) pre s caps =
     (case rmatch k pre s caps of
        Some r \<Rightarrow> Some r
      | None \<Rightarrow> (case s of [] \<Rightarrow> None
                 | c # s' \<Rightarrow> if cmem cs c then rmatch (StarL cs # k) (c # pre) s' caps else None))"
| "rmatch (Plus cs # k) pre s caps = rmatch (C cs # Star cs # k) pre s caps"
| "rmatch (PlusL cs # k) pre s caps = rmatch (C cs # StarL cs # k) pre s caps"
| "rmatch (Opt rs # k) pre s caps =
     (case rmatch (rs @ k) pre s caps of Some r \<Rightarrow> Some r | None \<Rightarrow> rmatch k pre s caps)"
| "rmatch (Alt [] # k) pre s caps = None"
| "rmatch (Alt (rs # rss) # k) pre s caps =
     (case rmatch (rs @ k) pre s caps of Some r \<Rightarrow> Some r | None \<Rightarrow> rmatch (Alt rss # k) pre s caps)"
| "rmatch (Grp rs # k) pre s caps = rmatch (rs @ Close s # k) pre s caps"
| "rmatch (Close start # k) pre s caps = rmatch k pre s (caps @ [take (length start - length s) start])"
| "rmatch (Behind rcs # k) pre s caps = (if behind_ok rcs pre then rmatch k pre s caps else None)"
| "rmatch (Ahead rs # k) pre s caps =
     (case rmatch rs pre s [] of None \<Rightarrow> None | Some _ \<Rightarrow> rmatch k pre s caps)"
| "rmatch (WordB # k) pre s caps = (if at_boundary pre s then rmatch k pre s caps else None)"
| "rmatch (Bol # k) pre s caps = (if pre = [] then rmatch k pre s caps else None)"
| "rmatch (Eol # k) pre s caps = (if s = [] \<or> s = [newline] then rmatch k pre s caps else None)"
| "rmatch (Advance n # k) pre s caps = (if length s < n then rmatch k pre s caps else None)"
  by pat_completeness auto
termination
  by (relation "measures [\<lambda>(p, pre, s, caps). sum_list (map weight p), \<lambda>(p, pre, s, caps). length s]") auto

text \<open>
  A match object: the text matched (\<^verbatim>\<open>group(0)\<close>) and the captured groups
  (\<^verbatim>\<open>group(1)\<close>, \<^verbatim>\<open>group(2)\<close>, ...).
\<close>

type_synonym rmatch_obj = "string \<times> string list"

text \<open>\<^verbatim>\<open>pattern.search(s)\<close>: the first position, from the left, where the pattern matches.\<close>

fun search_from :: "rx list \<Rightarrow> string \<Rightarrow> string \<Rightarrow> rmatch_obj option" where
  "search_from p pre [] =
     (case rmatch p pre [] [] of None \<Rightarrow> None | Some (pre', s', caps) \<Rightarrow> Some ([], caps))"
| "search_from p pre (c # s) =
     (case rmatch p pre (c # s) [] of
        Some (pre', s', caps) \<Rightarrow> Some (rev (take (length (c # s) - length s') pre'), caps)
      | None \<Rightarrow> search_from p (c # pre) s)"

definition re_search :: "rx list \<Rightarrow> string \<Rightarrow> rmatch_obj option" where
  "re_search p s = search_from p [] s"

text \<open>
  The successive matches of \<^verbatim>\<open>finditer\<close>, each with the unmatched text before it, and the
  unmatched rest. After an empty match the next one at the same position must advance.
\<close>

function finditer :: "rx list \<Rightarrow> string \<Rightarrow> string \<Rightarrow> string \<Rightarrow> bool \<Rightarrow> (string \<times> rmatch_obj) list \<times> string" where
  "finditer p pre gap s adv =
     (let forward = (\<lambda>_::unit. case s of [] \<Rightarrow> ([], rev gap)
                                | c # s'' \<Rightarrow> finditer p (c # pre) (c # gap) s'' False)
      in case rmatch (if adv then p @ [Advance (length s)] else p) pre s [] of
           None \<Rightarrow> forward ()
         | Some (pre', s', caps) \<Rightarrow>
             if length s' < length s
             then (let (ms, rest) = finditer p pre' [] s' False
                   in ((rev gap, rev (take (length s - length s') pre'), caps) # ms, rest))
             else if adv then forward ()
             else (let (ms, rest) = finditer p pre [] s True
                   in ((rev gap, [], caps) # ms, rest)))"
  by pat_completeness auto
termination
  by (relation "measures [\<lambda>(p, pre, gap, s, adv). length s, \<lambda>(p, pre, gap, s, adv). if adv then 0 else 1]") auto

definition re_findall :: "rx list \<Rightarrow> string \<Rightarrow> rmatch_obj list" where
  "re_findall p s = map snd (fst (finditer p [] [] s False))"

definition findall_group :: "rx list \<Rightarrow> string \<Rightarrow> string list" where
  \<comment> \<open>\<^verbatim>\<open>findall\<close> of a pattern with one group gives the list of that group\<close>
  "findall_group p s = map (\<lambda>(m, caps). hd caps) (re_findall p s)"

definition findall_whole :: "rx list \<Rightarrow> string \<Rightarrow> string list" where
  \<comment> \<open>\<^verbatim>\<open>findall\<close> of a pattern without group gives the matched texts\<close>
  "findall_whole p s = map fst (re_findall p s)"

definition re_split :: "rx list \<Rightarrow> string \<Rightarrow> string list" where
  \<comment> \<open>\<^verbatim>\<open>re.split\<close> for a pattern without group\<close>
  "re_split p s = (let (ms, rest) = finditer p [] [] s False in map fst ms @ [rest])"

definition re_sub_empty :: "rx list \<Rightarrow> string \<Rightarrow> string" where
  \<comment> \<open>\<^verbatim>\<open>re.sub(pattern, '', s)\<close>\<close>
  "re_sub_empty p s = (let (ms, rest) = finditer p [] [] s False in concat (map fst ms) @ rest)"

definition behind :: "cset list \<Rightarrow> rx" where
  \<comment> \<open>\<^verbatim>\<open>(?<=...)\<close> over a fixed sequence of character classes\<close>
  "behind cs = Behind (rev cs)"

definition lit :: "string \<Rightarrow> rx list" where
  "lit s = map (\<lambda>c. C (Ch c)) s"

definition liti :: "string \<Rightarrow> rx list" where
  \<comment> \<open>a literal under \<^verbatim>\<open>re.IGNORECASE\<close>\<close>
  "liti s = map (\<lambda>c. C (ChI c)) s"

definition chars :: "string \<Rightarrow> cset list" where
  "chars s = map Ch s"

definition charsi :: "string \<Rightarrow> cset list" where
  "charsi s = map ChI s"

section \<open>Constraint synthesis (analisisScript01.py)\<close>

text \<open>
  Exceptions of the Python code are values of type \<open>error\<close>; a function that can raise
  returns \<open>error + 'a\<close>.
\<close>

datatype error = ValueError | AttributeError | IndexError | UnboundLocalError | KeyError

definition word_to_num :: "(string \<times> int) list" where
  "word_to_num = [(''zero'', 0), (''one'', 1)]"

definition convert_word_to_num :: "string \<Rightarrow> int option" where
  "convert_word_to_num word = map_of word_to_num (py_lower word)"

definition group :: "rmatch_obj \<Rightarrow> nat \<Rightarrow> string" where
  \<comment> \<open>\<^verbatim>\<open>m.group(i)\<close> for \<open>i \<ge> 1\<close>\<close>
  "group m i = snd m ! (i - 1)"

definition feature_without_lastProperty :: "string \<Rightarrow> string" where
  \<comment> \<open>\<^verbatim>\<open>feature_key.rsplit('_', 1)[0]\<close>\<close>
  "feature_without_lastProperty feature_key = rsplit1_first feature_key CHR ''_''"

subsection \<open>\<^verbatim>\<open>extract_constraints_template_onlyAllowed\<close>\<close>

definition template_spec_policy_pattern01 :: "rx list" where
  \<comment> \<open>\<^verbatim>\<open>(?<=The only allowed template.spec.restartPolicy value is\s)\"([A-Za-z]+)\"\<close>, IGNORECASE\<close>
  "template_spec_policy_pattern01 =
     [behind (charsi ''The only allowed template'' @ [Any] @ charsi ''spec'' @ [Any]
              @ charsi ''restartPolicy value is'' @ [Space]),
      C (Ch dq), Grp [Plus Letter], C (Ch dq)]"

definition template_spec_policies_pattern02 :: "rx list" where
  \<comment> \<open>\<^verbatim>\<open>\"([A-Za-z]+)\"\<close>\<close>
  "template_spec_policies_pattern02 = [C (Ch dq), Grp [Plus Letter], C (Ch dq)]"

definition extract_constraints_template_onlyAllowed :: "string \<Rightarrow> string \<Rightarrow> error + string" where
  "extract_constraints_template_onlyAllowed description feature_key =
     (let feature_with_spec = feature_key @ ''_spec_restartPolicy'' in
      if py_in ''value is'' description then
        (case re_search template_spec_policy_pattern01 description of
           None \<Rightarrow> Inl ValueError
         | Some policy_match \<Rightarrow>
             (let policy_Always = feature_with_spec @ ''_'' @ group policy_match 1;
                  policy_OnFailure = feature_with_spec @ ''_OnFailure'';
                  policy_Never = feature_with_spec @ ''_Never''
              in Inr (''('' @ policy_Always @ '' => '' @ feature_key @ '') & (!'' @ policy_Never
                      @ '') & (!'' @ policy_OnFailure @ '')'')))
      else if py_in ''values are'' description then
        (let policies_match = findall_group template_spec_policies_pattern02 description;
             policies_Always = feature_with_spec @ ''_Always''
         in if length policies_match < 2 then Inl ValueError
            else (let allowed_policies = map (\<lambda>policy. feature_with_spec @ ''_'' @ policy) policies_match
                  in Inr (''('' @ join '' | '' allowed_policies @ ''  => '' @ feature_key
                          @ '') & (!'' @ policies_Always @ '')'')))
      else Inl ValueError)"

subsection \<open>\<^verbatim>\<open>extract_constraints_string_oneOf\<close>\<close>

text \<open>
  In this and the following functions the variable \<^verbatim>\<open>uvl_rule\<close> starts as the empty
  string and the function ends with \<^verbatim>\<open>if uvl_rule is not None: return uvl_rule\<close> and
  another result otherwise. The model keeps the variable as an option, so that the final
  test is the source's.
\<close>

definition extract_constraints_string_oneOf :: "string \<Rightarrow> string \<Rightarrow> string" where
  "extract_constraints_string_oneOf description feature_key =
     (let fwl = feature_without_lastProperty feature_key;
          uvl_rule =
            (if py_in ''indicates which one of'' description then
               (let kind_authentication_group = fwl @ ''_group'';
                    kind_authentication_serviceAccount = fwl @ ''_serviceAccount'';
                    kind_authentication_User = fwl @ ''_user''
                in Some (''('' @ feature_key @ '' == '' @ [sq] @ ''Group'' @ [sq] @ '' => '' @ kind_authentication_group @ '')''
                   @ '' | ('' @ feature_key @ '' == '' @ [sq] @ ''ServiceAccount'' @ [sq] @ '' => '' @ kind_authentication_serviceAccount @ '')''
                   @ '' | ('' @ feature_key @ '' == '' @ [sq] @ ''User'' @ [sq] @ '' => '' @ kind_authentication_User @ '')''
                   @ '' & !('' @ kind_authentication_group @ '' & '' @ kind_authentication_serviceAccount @ '')''
                   @ '' & !('' @ kind_authentication_serviceAccount @ '' & '' @ kind_authentication_User @ '')''
                   @ '' & !('' @ kind_authentication_group @ '' & '' @ kind_authentication_User @ '')''))
             else Some [])
      in case uvl_rule of Some r \<Rightarrow> py_strip r | None \<Rightarrow> ''El conjunto esta vacio'')"

subsection \<open>\<^verbatim>\<open>extract_constraints_multiple_conditions\<close>\<close>

definition conditions_pattern :: "rx list" where
  \<comment> \<open>\<^verbatim>\<open>\b(Approved|Denied|Failed)\b\<close>\<close>
  "conditions_pattern = [WordB, Grp [Alt [lit ''Approved'', lit ''Denied'', lit ''Failed'']], WordB]"

definition type_notbe_pattern :: "rx list" where
  \<comment> \<open>\<^verbatim>\<open>(?<=conditions may not be\s)\"([A-Za-z]+)\"\s+or\s+\"([A-Za-z]+)\"\<close>\<close>
  "type_notbe_pattern =
     [behind (chars ''conditions may not be'' @ [Space]), C (Ch dq), Grp [Plus Letter], C (Ch dq), Plus Space]
     @ lit ''or'' @ [Plus Space, C (Ch dq), Grp [Plus Letter], C (Ch dq)]"

definition extract_constraints_multiple_conditions :: "string \<Rightarrow> string \<Rightarrow> error + string" where
  "extract_constraints_multiple_conditions description feature_key =
     (let fwl = feature_without_lastProperty feature_key;
          finish = (\<lambda>uvl_rule. case uvl_rule of Some r \<Rightarrow> py_strip r | None \<Rightarrow> ''El conjunto esta vacio'')
      in if py_in ''conditions may not be'' description then
           (case re_search type_notbe_pattern description of
              None \<Rightarrow> Inl AttributeError
            | Some type_match \<Rightarrow>
                (let type01 = group type_match 1;
                     type02 = group type_match 2;
                     types_notbe = ''!'' @ feature_key @ ''_'' @ type01 @ '' & !'' @ feature_key @ ''_'' @ type02;
                     conditions_match = findall_group conditions_pattern description
                 in if length conditions_match < 3 then Inl IndexError
                    else Inr (finish (Some (fwl @ '' => ('' @ fwl @ ''_type_'' @ conditions_match ! 0
                           @ '' | '' @ fwl @ ''_type_'' @ conditions_match ! 1
                           @ '' | '' @ fwl @ ''_type_'' @ conditions_match ! 2 @ '') => '' @ types_notbe)))))
         else if py_in ''Details about a waiting'' description then
           (let container_state01 = fwl @ ''_running'';
                container_state02 = fwl @ ''_terminated''
            in Inr (finish (Some (fwl @ '' => ('' @ feature_key @ '' => !'' @ container_state01 @ '' & !'' @ container_state02 @ '')''
                 @ '' & ('' @ container_state01 @ '' => !'' @ feature_key @ '' & !'' @ container_state02 @ '')''
                 @ '' & ('' @ container_state02 @ '' => !'' @ feature_key @ '' & !'' @ container_state01 @ '')''
                 @ ''& (!'' @ container_state01 @ '' & !'' @ container_state02 @ '' => '' @ feature_key @ '')''))))
         else if py_in ''TCPSocket is NOT'' description then
           (let action_lifecycle_exec = fwl @ ''_exec'';
                action_lifecycle_httpGet = fwl @ ''_httpGet'';
                action_lifecycle_sleep = fwl @ ''_sleep''
            in Inr (finish (Some (fwl @ '' => ('' @ action_lifecycle_exec @ '' | '' @ action_lifecycle_httpGet @ '' | '' @ action_lifecycle_sleep @ '')''
                 @ '' & !('' @ action_lifecycle_exec @ '' & '' @ action_lifecycle_httpGet @ '')''
                 @ '' & !('' @ action_lifecycle_exec @ '' & '' @ action_lifecycle_sleep @ '')''
                 @ '' & !('' @ action_lifecycle_httpGet @ '' & '' @ action_lifecycle_sleep @ '')''
                 @ '' & !'' @ feature_key))))
         else Inr (finish (Some [])))"

subsection \<open>\<^verbatim>\<open>extract_constraints_primary_or\<close>\<close>

definition extract_constraints_primary_or :: "string \<Rightarrow> string \<Rightarrow> string" where
  "extract_constraints_primary_or description feature_key =
     (let fwl = feature_without_lastProperty feature_key;
          exactly_one = (\<lambda>other. fwl @ '' => ('' @ feature_key @ '' | '' @ other @ '') & !('' @ feature_key @ '' & '' @ other @ '')'');
          uvl_rule =
            (if py_in ''non-resource access request'' description then
               Some (exactly_one (fwl @ ''_resourceAttributes''))
             else if py_in ''succeededIndexes specifies'' description then
               Some (fwl @ '' => '' @ feature_key @ '' | '' @ fwl @ ''_succeededCount'')
             else if py_in ''Represents the requirement on the container'' description then
               Some (exactly_one (fwl @ ''_onPodConditions''))
             else if py_in ''ResourceClaim object in the same namespace as this pod'' description then
               Some (exactly_one (fwl @ ''_resourceClaimTemplateName''))
             else if py_in ''datasetUUID is'' description then
               Some (exactly_one (fwl @ ''_datasetName''))
             else Some [])
      in case uvl_rule of Some r \<Rightarrow> r | None \<Rightarrow> ''El conjunto esta vacio'')"

subsection \<open>\<^verbatim>\<open>extract_constraints_least_one\<close>\<close>

definition least_one_pattern01 :: "rx list" where
  \<comment> \<open>\<^verbatim>\<open>(?<=a least one of\s)(\w+)\s+or\s+(\w+)\<close>, IGNORECASE\<close>
  "least_one_pattern01 =
     [behind (charsi ''a least one of'' @ [Space]), Grp [Plus Word], Plus Space] @ liti ''or''
     @ [Plus Space, Grp [Plus Word]]"

definition exactly_least_one_pattern02 :: "rx list" where
  \<comment> \<open>\<^verbatim>\<open>(?<=Exactly one of\s)`(\w+)`\s+or\s+`(\w+)`\<close>, IGNORECASE\<close>
  "exactly_least_one_pattern02 =
     [behind (charsi ''Exactly one of'' @ [Space]), C (Ch backtick), Grp [Plus Word], C (Ch backtick), Plus Space]
     @ liti ''or'' @ [Plus Space, C (Ch backtick), Grp [Plus Word], C (Ch backtick)]"

definition at_least_one_pattern01 :: "rx list" where
  \<comment> \<open>\<^verbatim>\<open>(?<=At least one of\s)`(\w+)`\s+and\s+`(\w+)`\<close>, IGNORECASE\<close>
  "at_least_one_pattern01 =
     [behind (charsi ''At least one of'' @ [Space]), C (Ch backtick), Grp [Plus Word], C (Ch backtick), Plus Space]
     @ liti ''and'' @ [Plus Space, C (Ch backtick), Grp [Plus Word], C (Ch backtick)]"

definition extract_constraints_least_one :: "string \<Rightarrow> string \<Rightarrow> string" where
  "extract_constraints_least_one description feature_key =
     (let fwl = feature_without_lastProperty feature_key;
          a_least_match01 = re_search least_one_pattern01 description;
          exactly_match01 = re_search exactly_least_one_pattern02 description;
          at_least_match01 = re_search at_least_one_pattern01 description;
          uvl_rule =
            (case a_least_match01 of
               Some m \<Rightarrow> Some (fwl @ '' => '' @ fwl @ ''_'' @ group m 1 @ '' | '' @ fwl @ ''_'' @ group m 2)
             | None \<Rightarrow>
            (case exactly_match01 of
               Some m \<Rightarrow> Some (fwl @ '' => ('' @ fwl @ ''_'' @ group m 1 @ '' | '' @ fwl @ ''_'' @ group m 2
                               @ '') & !('' @ fwl @ ''_'' @ group m 1 @ '' & '' @ fwl @ ''_'' @ group m 2 @ '')'')
             | None \<Rightarrow>
            (case at_least_match01 of
               Some m \<Rightarrow> Some (fwl @ '' => '' @ fwl @ ''_'' @ group m 1 @ '' | '' @ fwl @ ''_'' @ group m 2)
             | None \<Rightarrow> Some [])))
      in case uvl_rule of Some r \<Rightarrow> r | None \<Rightarrow> ''El conjunto esta vacio'')"

subsection \<open>\<^verbatim>\<open>extract_constraints_operator\<close>\<close>

definition operator_is_pattern01 :: "rx list" where
  \<comment> \<open>\<^verbatim>\<open>If the operator is\s+(\w+)\s+or\s+(\w+)\<close>, IGNORECASE\<close>
  "operator_is_pattern01 =
     liti ''If the operator is'' @ [Plus Space, Grp [Plus Word], Plus Space] @ liti ''or''
     @ [Plus Space, Grp [Plus Word]]"

definition operator_if_pattern02 :: "rx list" where
  \<comment> \<open>\<^verbatim>\<open>If the operator is\s+(\w+)\<close>\<close>
  "operator_if_pattern02 = lit ''If the operator is'' @ [Plus Space, Grp [Plus Word]]"

definition extract_constraints_operator :: "string \<Rightarrow> string \<Rightarrow> error + string" where
  "extract_constraints_operator description feature_key =
     (let fwl = feature_without_lastProperty feature_key;
          operator_match01 = re_findall operator_is_pattern01 description;
          finish = (\<lambda>uvl_rule. case uvl_rule of Some r \<Rightarrow> r | None \<Rightarrow> ''El conjunto esta vacio'')
      in if operator_match01 \<noteq> [] \<and> \<not> py_in ''is Exists,'' description then
           (if length operator_match01 < 2 then Inl IndexError
            else
              (let type_property01 = operator_match01 ! 0;
                   type_property02 = operator_match01 ! 1;
                   uvl_rule = ''('' @ fwl @ ''_operator_'' @ group type_property01 1 @ '' | '' @ fwl @ ''_operator_'' @ group type_property01 2
                        @ '' => '' @ feature_key @ '') | ('' @ fwl @ ''_operator_'' @ group type_property02 1 @ '' |'' @ fwl @ ''_operator_''
                        @ group type_property02 2 @ '' => !'' @ feature_key @ '')''
               in if py_in ''the operator is Gt or Lt'' description then
                    (if length operator_match01 < 3 then Inl IndexError
                     else (let type_property05 = operator_match01 ! 2
                           in Inr (finish (Some (uvl_rule @ ''| ('' @ fwl @ ''_operator_'' @ group type_property05 1 @ '' |'' @ fwl
                                 @ ''_operator_'' @ group type_property05 2 @ '' => '' @ feature_key @ '')'')))))
                  else Inr (finish (Some uvl_rule))))
         else if py_in ''is Exists'' description then
           (case re_search operator_if_pattern02 description of
              None \<Rightarrow> Inl AttributeError
            | Some operator_match02 \<Rightarrow>
                Inr (finish (Some (fwl @ ''_operator_'' @ group operator_match02 1 @ '' => !'' @ feature_key))))
         else Inr (finish (Some [])))"

subsection \<open>\<^verbatim>\<open>extract_constraints_os_name\<close>\<close>

definition osName_pattern :: "rx list" where
  \<comment> \<open>\<^verbatim>\<open>(?<=Note that this field cannot be set when spec.os.name is\s)([a-zA-Z\s,]+)(?=\.)\<close>, IGNORECASE\<close>
  "osName_pattern =
     [behind (charsi ''Note that this field cannot be set when spec'' @ [Any] @ charsi ''os'' @ [Any]
              @ charsi ''name is'' @ [Space]),
      Grp [Plus (Union [Letter, Space, Ch CHR '','']) ], Ahead [C (Ch CHR ''.'')]]"

definition prefix_pattern :: "string \<Rightarrow> rx list" where
  \<comment> \<open>\<^verbatim>\<open>^(.*?_template_spec)\<close> and its four variants\<close>
  "prefix_pattern marker = [Bol, Grp (StarL Any # lit marker)]"

definition list_anothers :: "string list" where
  "list_anothers = [''_v1_Container_securityContext_'', ''_v1_EphemeralContainer_securityContext_'',
     ''_PodSecurityContext_'', ''_v1_SecurityContext_'']"

definition extract_constraints_os_name :: "string \<Rightarrow> string \<Rightarrow> error + string" where
  "extract_constraints_os_name description feature_key =
     (let path_osName = ''os_name'';
          finish = (\<lambda>uvl_rule. case uvl_rule of Some r \<Rightarrow> Inr r | None \<Rightarrow> Inr []);
          rule = (\<lambda>feature_without0 name_obtained.
                    feature_without0 @ ''_'' @ path_osName @ ''_'' @ name_obtained @ '' => !'' @ feature_key)
      in case re_search osName_pattern description of
           None \<Rightarrow> finish (Some [])
         | Some osName_match \<Rightarrow>
             if py_in ''_template_spec_'' feature_key then
               (case re_search (prefix_pattern ''_template_spec'') feature_key of
                  None \<Rightarrow> Inl UnboundLocalError
                | Some m \<Rightarrow> finish (Some (rule (group m 1) (group osName_match 1))))
             else if py_in ''_Pod_spec_'' feature_key then
               (case re_search (prefix_pattern ''_Pod_spec'') feature_key of
                  None \<Rightarrow> Inl UnboundLocalError
                | Some m \<Rightarrow> finish (Some (rule (group m 1) (group osName_match 1))))
             else if py_in ''_PodList_items_spec_'' feature_key then
               (case re_search (prefix_pattern ''_PodList_items_spec'') feature_key of
                  None \<Rightarrow> Inl AttributeError
                | Some m \<Rightarrow> finish (Some (rule (group m 1) (group osName_match 1))))
             else if py_in ''_core_v1_PodSpec_'' feature_key then
               (case re_search (prefix_pattern ''_core_v1_PodSpec'') feature_key of
                  None \<Rightarrow> Inl AttributeError
                | Some m \<Rightarrow> finish (Some (rule (group m 1) (group osName_match 1))))
             else if py_in ''_PodTemplateSpec_spec_'' feature_key then
               (case re_search (prefix_pattern ''_PodTemplateSpec_spec'') feature_key of
                  None \<Rightarrow> Inl AttributeError
                | Some m \<Rightarrow> finish (Some (rule (group m 1) (group osName_match 1))))
             else if \<exists>pattern \<in> set list_anothers. py_in pattern feature_key then
               finish (Some (''io_k8s_api_core_v1_PodSpec_os_name'' @ ''_'' @ group osName_match 1 @ '' => !'' @ feature_key))
             else finish (Some []))"

subsection \<open>\<^verbatim>\<open>extract_constraints_mutualy_exclusive\<close>\<close>

definition exclusive_pattern :: "rx list" where
  \<comment> \<open>\<^verbatim>\<open>\`([A-Za-z]+)\`\<close>\<close>
  "exclusive_pattern = [C (Ch backtick), Grp [Plus Letter], C (Ch backtick)]"

definition extract_constraints_mutualy_exclusive :: "string \<Rightarrow> string \<Rightarrow> error + string" where
  "extract_constraints_mutualy_exclusive description feature_key =
     (let exclusive_match = findall_group exclusive_pattern description;
          fwl = feature_without_lastProperty feature_key;
          finish = (\<lambda>uvl_rule. case uvl_rule of Some r \<Rightarrow> Inr r | None \<Rightarrow> Inr [])
      in if exclusive_match \<noteq> [] then
           (if length exclusive_match < 2 then Inl IndexError
            else (let type_property01 = exclusive_match ! 0;
                      type_property02 = exclusive_match ! 1
                  in finish (Some (''('' @ fwl @ ''_'' @ type_property01 @ '' => !'' @ fwl @ ''_'' @ type_property02
                       @ '') & ('' @ fwl @ ''_'' @ type_property02 @ '' => !'' @ fwl @ ''_'' @ type_property01 @ '')''))))
         else finish (Some []))"

subsection \<open>\<^verbatim>\<open>extract_constraints_if\<close>\<close>

definition only_if_pattern :: "rx list" where
  \<comment> \<open>\<^verbatim>\<open>\"([A-Za-z]+)\"\<close>\<close>
  "only_if_pattern = [C (Ch dq), Grp [Plus Letter], C (Ch dq)]"

definition extract_constraints_if :: "string \<Rightarrow> string \<Rightarrow> error + string" where
  "extract_constraints_if description feature_key =
     (let if_match = re_search only_if_pattern description;
          fwl = feature_without_lastProperty feature_key;
          finish = (\<lambda>uvl_rule. case uvl_rule of Some r \<Rightarrow> Inr r
                     | None \<Rightarrow> Inr ''No hay ninguna coincidencia con los patrones y descripciones'')
      in if if_match \<noteq> None \<and> \<not> py_in ''exempt'' feature_key then
           (let value_obtained = group (the if_match) 1
            in if py_in ''Must be set if type is'' description \<or> py_in ''Must be set if and only if type'' description
                  \<or> py_in ''may be non-empty only if'' description
               then finish (Some (fwl @ ''_type_'' @ value_obtained @ '' <=> '' @ feature_key))
               else finish (Some (fwl @ ''_type_'' @ value_obtained @ '' => '' @ feature_key)))
         else if py_in ''exempt'' feature_key then
           (let exempt_match = findall_group only_if_pattern description
            in if length exempt_match < 2 then Inl IndexError
               else (let type_property01 = exempt_match ! 0;
                         type_property02 = exempt_match ! 1
                     in finish (Some (''('' @ fwl @ ''_type_'' @ type_property01 @ '' => !'' @ feature_key @ '') | (''
                          @ fwl @ ''_type_'' @ type_property02 @ '' => '' @ feature_key @ '')''))))
         else finish (Some []))"

subsection \<open>\<^verbatim>\<open>extract_constraints_required_when\<close>\<close>

definition is_set_to :: "rx list" where
  \<comment> \<open>\<^verbatim>\<open>\s+is\s+set\s+to\s+\<close>, IGNORECASE\<close>
  "is_set_to = [Plus Space] @ liti ''is'' @ [Plus Space] @ liti ''set'' @ [Plus Space] @ liti ''to'' @ [Plus Space]"

definition required_when_pattern :: "rx list" where
  \<comment> \<open>\<^verbatim>\<open>Required when\s+(\w+)\s+is\s+set\s+to\s+"([^"]+)"\<close>, IGNORECASE\<close>
  "required_when_pattern =
     liti ''Required when'' @ [Plus Space, Grp [Plus Word]] @ is_set_to
     @ [C (Ch dq), Grp [Plus (NotAmong [dq])], C (Ch dq)]"

definition must_be_unset_pattern :: "rx list" where
  \<comment> \<open>\<^verbatim>\<open>must be unset when\s+(\w+)\s+is\s+set\s+to\s+"([^"]+)"\<close>, IGNORECASE\<close>
  "must_be_unset_pattern =
     liti ''must be unset when'' @ [Plus Space, Grp [Plus Word]] @ is_set_to
     @ [C (Ch dq), Grp [Plus (NotAmong [dq])], C (Ch dq)]"

definition required_when_pattern_strategy :: "rx list" where
  \<comment> \<open>\<^verbatim>\<open>Required when\s+`(\w+)`\s+is\s+set\s+to\s+`?\"?([^\"`]+)\"?`?\<close>, IGNORECASE\<close>
  "required_when_pattern_strategy =
     liti ''Required when'' @ [Plus Space, C (Ch backtick), Grp [Plus Word], C (Ch backtick)] @ is_set_to
     @ [Opt [C (Ch backtick)], Opt [C (Ch dq)], Grp [Plus (NotAmong [dq, backtick])],
        Opt [C (Ch dq)], Opt [C (Ch backtick)]]"

definition extract_constraints_required_when :: "string \<Rightarrow> string \<Rightarrow> string" where
  "extract_constraints_required_when description feature_key =
     (let fwl = feature_without_lastProperty feature_key;
          required_match = re_search required_when_pattern description;
          unset_match = re_search must_be_unset_pattern description;
          when_match = re_search required_when_pattern_strategy description;
          uvl_rule =
            (if required_match \<noteq> None \<and> unset_match \<noteq> None then
               (let required_property = group (the required_match) 1;
                    required_value = group (the required_match) 2;
                    unset_property = group (the unset_match) 1;
                    unset_value = group (the unset_match) 2
                in Some (fwl @ ''_'' @ required_property @ ''_'' @ required_value @ '' => '' @ feature_key
                         @ '' & !('' @ fwl @ ''_'' @ unset_property @ ''_'' @ unset_value @ '')''))
             else if when_match \<noteq> None \<and> required_match = None \<and> unset_match = None then
               (let value_property = group (the when_match) 1;
                    value_default = group (the when_match) 2
                in Some (fwl @ ''_'' @ value_property @ ''_'' @ value_default @ '' => '' @ feature_key))
             else Some [])
      in case uvl_rule of Some r \<Rightarrow> r | None \<Rightarrow> ''El conjunto esta vacio'')"

subsection \<open>\<^verbatim>\<open>extract_minimum_value\<close>\<close>

definition value_minimum_pattern :: "rx list" where
  \<comment> \<open>\<^verbatim>\<open>(?<=Minimum value is\s)(\d+)\<close>\<close>
  "value_minimum_pattern = [behind (chars ''Minimum value is'' @ [Space]), Grp [Plus Digit]]"

definition value_text_pattern :: "rx list" where
  \<comment> \<open>\<^verbatim>\<open>(?<=minimum valid value for expirationSeconds is\s)(\d+)\<close>\<close>
  "value_text_pattern =
     [behind (chars ''minimum valid value for expirationSeconds is'' @ [Space]), Grp [Plus Digit]]"

definition in_the_range_pattern :: "rx list" where
  \<comment> \<open>\<^verbatim>\<open>(?<=in the range\s)(\d+)-(\d+)\<close>\<close>
  "in_the_range_pattern =
     [behind (chars ''in the range'' @ [Space]), Grp [Plus Digit], C (Ch CHR ''-''), Grp [Plus Digit]]"

definition extract_minimum_value :: "string \<Rightarrow> string \<Rightarrow> error + string" where
  "extract_minimum_value description feature_key =
     (let minimum_match = re_search value_minimum_pattern description;
          minimum_text_match = re_search value_text_pattern description;
          range_match = re_search in_the_range_pattern description;
          uvl_rule =
            (if minimum_match \<noteq> None then
               Some (feature_key @ '' > '' @ group (the minimum_match) 1)
             else if minimum_match = None \<and> py_in ''Value must be non-negative'' description then
               Some (feature_key @ '' > 0'')
             else if minimum_text_match \<noteq> None then
               Some (feature_key @ '' > '' @ group (the minimum_text_match) 1)
             else if range_match \<noteq> None then
               Some (feature_key @ '' > '' @ group (the range_match) 1 @ '' & '' @ feature_key @ '' < ''
                     @ group (the range_match) 2)
             else Some [])
      in case uvl_rule of Some r \<Rightarrow> Inr r | None \<Rightarrow> Inl ValueError)"

subsection \<open>\<^verbatim>\<open>extract_bounds\<close>\<close>

definition range_pattern :: "rx list" where
  \<comment> \<open>\<^verbatim>\<open>(\d+)\s*<\s*\w+\s*<\s*(\d+)\<close>\<close>
  "range_pattern =
     [Grp [Plus Digit], Star Space, C (Ch CHR ''<''), Star Space, Plus Word, Star Space, C (Ch CHR ''<''),
      Star Space, Grp [Plus Digit]]"

definition inclusive_range_pattern :: "rx list" where
  \<comment> \<open>\<^verbatim>\<open>(\d+)\s*-\s*(\d+)\s*\(inclusive\)\<close>\<close>
  "inclusive_range_pattern =
     [Grp [Plus Digit], Star Space, C (Ch CHR ''-''), Star Space, Grp [Plus Digit], Star Space]
     @ lit ''(inclusive)''"

definition range_text_pattern :: "rx list" where
  \<comment> \<open>\<^verbatim>\<open>Number\s+must\s+be\s+in\s+the\s+range\s+(\d+)\s+to\s+(\d+)\<close>, IGNORECASE\<close>
  "range_text_pattern =
     liti ''Number'' @ [Plus Space] @ liti ''must'' @ [Plus Space] @ liti ''be'' @ [Plus Space] @ liti ''in''
     @ [Plus Space] @ liti ''the'' @ [Plus Space] @ liti ''range'' @ [Plus Space, Grp [Plus Digit], Plus Space]
     @ liti ''to'' @ [Plus Space, Grp [Plus Digit]]"

definition must_be :: "rx list" where
  \<comment> \<open>\<^verbatim>\<open>must be greater than(?: or equal to)? (\w+)\<close>, IGNORECASE\<close>
  "must_be = liti ''must be greater than'' @ [Opt (liti '' or equal to''), C (ChI CHR '' ''), Grp [Plus Word]]"

definition less_than_pattern :: "rx list" where
  \<comment> \<open>\<^verbatim>\<open>less than or equal to (\d+)\<close>, IGNORECASE\<close>
  "less_than_pattern = liti ''less than or equal to '' @ [Grp [Plus Digit]]"

definition between_text_pattern :: "rx list" where
  \<comment> \<open>\<^verbatim>\<open>must\s+be\s+between\s+(\d+)\s+and\s+(\d+)\<close>, IGNORECASE\<close>
  "between_text_pattern =
     liti ''must'' @ [Plus Space] @ liti ''be'' @ [Plus Space] @ liti ''between'' @ [Plus Space, Grp [Plus Digit], Plus Space]
     @ liti ''and'' @ [Plus Space, Grp [Plus Digit]]"

definition py_int :: "string \<Rightarrow> error + int" where
  \<comment> \<open>\<^verbatim>\<open>int(s)\<close> on a string that passed \<^verbatim>\<open>isdigit\<close> or matched \<^verbatim>\<open>\d+\<close>\<close>
  "py_int s = (if s \<noteq> [] \<and> list_all is_decimal s then Inr (int_of_decimal s) else Inl ValueError)"

definition isdigit :: "string \<Rightarrow> bool" where
  "isdigit s = (s \<noteq> [] \<and> list_all is_digit_char s)"

type_synonym bounds = "int option \<times> int option \<times> bool \<times> bool"

definition extract_bounds :: "string \<Rightarrow> error + bounds" where
  "extract_bounds description0 =
     (let is_port_number = py_in ''valid port number'' (py_lower description0);
          description = foldl (\<lambda>d (word, num). py_replace word (py_str num) d) (py_lower description0) word_to_num;
          two = (\<lambda>m is_other_number.
                   case py_int (group m 1) of Inl e \<Rightarrow> Inl e
                   | Inr min_bound \<Rightarrow>
                       (case py_int (group m 2) of Inl e \<Rightarrow> Inl e
                        | Inr max_bound \<Rightarrow> Inr (Some min_bound, Some max_bound, is_port_number, is_other_number)))
      in case re_search range_pattern description of Some m \<Rightarrow> two m False | None \<Rightarrow>
        (case re_search inclusive_range_pattern description of Some m \<Rightarrow> two m False | None \<Rightarrow>
        (case re_search range_text_pattern description of Some m \<Rightarrow> two m False | None \<Rightarrow>
        (case re_search between_text_pattern description of Some m \<Rightarrow> two m True | None \<Rightarrow>
        (let greater_than_match = re_search must_be description;
             less_than_match = re_search less_than_pattern description;
             lower_part =
               (case greater_than_match of
                  None \<Rightarrow> Inr (None, False)
                | Some m \<Rightarrow>
                    if isdigit (group m 1)
                    then (case py_int (group m 1) of Inl e \<Rightarrow> Inl e | Inr n \<Rightarrow> Inr (Some n, True))
                    else Inr (convert_word_to_num (group m 1), True))
         in case lower_part of
              Inl e \<Rightarrow> Inl e
            | Inr (min_bound, is_other_number) \<Rightarrow>
                (case less_than_match of
                   None \<Rightarrow> Inr (min_bound, None, is_port_number, is_other_number)
                 | Some m \<Rightarrow>
                     (case py_int (group m 1) of Inl e \<Rightarrow> Inl e
                      | Inr n \<Rightarrow> Inr (min_bound, Some (n + 1), is_port_number, True))))))))"

subsection \<open>\<^verbatim>\<open>convert_to_uvl_constraints\<close> and \<^verbatim>\<open>generar_constraintsDef\<close>\<close>

text \<open>
  A description record as \<^verbatim>\<open>categorize_description\<close> stores it and the JSON side file keeps
  it. The description of a record is a string (the generator never stores anything else),
  so the two \<^verbatim>\<open>isinstance\<close> branches at the head of \<^verbatim>\<open>convert_to_uvl_constraints\<close> are not
  taken. The module-level counter \<^verbatim>\<open>count\<close> is passed in and returned.
\<close>

record description_entry =
  d_feature_name :: string
  d_description :: string
  d_type_data :: string

definition some_rule :: "error + string \<Rightarrow> error + string option" where
  "some_rule r = (case r of Inl e \<Rightarrow> Inl e | Inr x \<Rightarrow> Inr (Some x))"

definition boolean_rule :: "string \<Rightarrow> string \<Rightarrow> error + string option" where
  "boolean_rule feature_key description =
     (if py_in ''Number must be in the range'' description then
        Inr (Some (feature_without_lastProperty feature_key @ '' => ('' @ feature_key @ ''_asInteger > 1 & ''
          @ feature_key @ ''_asInteger < 65535) | ('' @ feature_key @ ''_asString == '' @ [sq] @ ''IANA_SVC_NAME'' @ [sq] @ '')''))
      else if py_in ''required when'' description \<or> py_in ''Required when'' description then
        Inr (Some (extract_constraints_required_when description feature_key))
      else if py_in ''only if type'' description \<or> py_in ''Must be set if type is'' description
              \<or> py_in ''must be non-empty if and only if'' description \<or> py_in ''field MUST be empty if'' description
              \<or> py_in ''may be non-empty only if'' description then
        some_rule (extract_constraints_if description feature_key)
      else if py_in ''selector can be used to match multiple param objects based on their labels'' description then
        some_rule (extract_constraints_mutualy_exclusive description feature_key)
      else if py_in ''Note that this field cannot be'' description then
        some_rule (extract_constraints_os_name description feature_key)
      else if py_in ''If the operator is'' description then
        some_rule (extract_constraints_operator description feature_key)
      else if py_in ''a least one of'' description \<or> py_in ''Exactly one of'' description
              \<or> py_in ''At least one of'' description then
        Inr (Some (extract_constraints_least_one description feature_key))
      else if py_in ''resource access request'' description \<or> py_in ''succeededIndexes specifies'' description
              \<or> py_in ''Represents the requirement on the container'' description
              \<or> py_in ''ResourceClaim object in the same namespace as this pod'' description
              \<or> py_in ''datasetUUID is'' description then
        Inr (Some (extract_constraints_primary_or description feature_key))
      else if py_in ''conditions may not be'' description \<or> py_in ''Details about a waiting'' description
              \<or> py_in ''TCPSocket is NOT'' description then
        some_rule (extract_constraints_multiple_conditions description feature_key)
      else if py_in ''template.spec.restartPolicy'' description \<and> py_in description description then
        some_rule (extract_constraints_template_onlyAllowed description feature_key)
      else Inr None)"

definition integer_rule :: "string \<Rightarrow> string \<Rightarrow> bounds \<Rightarrow> error + string option" where
  "integer_rule feature_key description b =
     (case b of (min_bound, max_bound, is_port_number, is_other_number) \<Rightarrow>
        if is_port_number then
          (let min_bound' = (case min_bound of None \<Rightarrow> 1 | Some m \<Rightarrow> m);
               max_bound' = (case max_bound of None \<Rightarrow> 65535 | Some m \<Rightarrow> m)
           in Inr (Some (feature_key @ '' > '' @ py_str min_bound' @ '' & '' @ feature_key @ '' < '' @ py_str max_bound')))
        else if min_bound \<noteq> None \<and> max_bound \<noteq> None then
          Inr (Some (feature_key @ '' > '' @ py_str (the min_bound) @ '' & '' @ feature_key @ '' < '' @ py_str (the max_bound)))
        else if min_bound \<noteq> None then
          Inr (Some (feature_key @ '' > '' @ py_str (the min_bound)))
        else if max_bound \<noteq> None then
          Inr (Some (feature_key @ '' < '' @ py_str (the max_bound)))
        else if py_in ''Minimum value is'' description \<or> py_in ''Value must be non-negative'' description
                \<or> py_in ''minimum valid value for'' description \<or> py_in ''in the range'' description then
          some_rule (extract_minimum_value description feature_key)
        else Inr None)"

definition string_rule :: "string \<Rightarrow> string \<Rightarrow> error + string option" where
  "string_rule feature_key description =
     (if py_in ''conditions may not be'' description then
        some_rule (extract_constraints_multiple_conditions description feature_key)
      else if py_in ''indicates which one of'' description then
        Inr (Some (extract_constraints_string_oneOf description feature_key))
      else Inr None)"

definition convert_to_uvl_constraints :: "string \<Rightarrow> string \<Rightarrow> string \<Rightarrow> int \<Rightarrow> error + (string option \<times> int)" where
  "convert_to_uvl_constraints feature_key description type_data count =
     (case extract_bounds description of
        Inl e \<Rightarrow> Inl e
      | Inr b \<Rightarrow>
          (case (if type_data = ''Boolean'' \<or> type_data = ''boolean'' then boolean_rule feature_key description
                 else if type_data = ''Integer'' \<or> type_data = ''integer'' then integer_rule feature_key description b
                 else if type_data = [] \<or> type_data = ''string'' then string_rule feature_key description
                 else Inr None) of
             Inl e \<Rightarrow> Inl e
           | Inr uvl_rule \<Rightarrow> Inr (uvl_rule, if uvl_rule = None then count + 1 else count)))"

definition truthy :: "string option \<Rightarrow> bool" where
  \<comment> \<open>\<^verbatim>\<open>if uvl_rule:\<close> holds for a string that is not empty\<close>
  "truthy r = (case r of None \<Rightarrow> False | Some x \<Rightarrow> x \<noteq> [])"

fun generar_loop :: "description_entry list \<Rightarrow> string list \<Rightarrow> int \<Rightarrow> error + (string list \<times> int)" where
  "generar_loop [] uvl_rules count = Inr (uvl_rules, count)"
| "generar_loop (restriction # rest) uvl_rules count =
     (case convert_to_uvl_constraints (d_feature_name restriction) (d_description restriction)
             (d_type_data restriction) count of
        Inl e \<Rightarrow> Inl e
      | Inr (uvl_rule, count') \<Rightarrow>
          generar_loop rest (if truthy uvl_rule then uvl_rules @ [the uvl_rule] else uvl_rules) count')"

text \<open>
  \<open>generar_constraintsDef restrictions count\<close> takes the list under the key
  \<^verbatim>\<open>restrictions\<close> of the side file and the counter before the call; it gives the emitted
  constraints and the counter the final message reports.
\<close>

definition generar_constraintsDef :: "description_entry list \<Rightarrow> int \<Rightarrow> error + (string list \<times> int)" where
  "generar_constraintsDef restrictions count = generar_loop restrictions [] count"

section \<open>The schema document and the feature tree (convert01.py)\<close>

text \<open>
  A schema is the Python dictionary of one JSON Schema node, with the keys the generator
  reads. A key that is absent is \<open>None\<close>. The values of \<^verbatim>\<open>enum\<close> are given by their
  \<^verbatim>\<open>str\<close>; \<open>s_more\<close> tells that the dictionary has further keys, which only matters for
  its truth value. The properties are kept in the order of the document.
\<close>

datatype schema = Schema
  (s_description: "string option")
  (s_type: "string option")
  (s_ref: "string option")
  (s_items: "schema option")
  (s_additionalProperties: "schema option")
  (s_properties: "(string \<times> schema) list option")
  (s_required: "string list option")
  (s_enum: "string list option")
  (s_oneOf: "schema list option")
  (s_more: bool)

definition is_empty_schema :: "schema \<Rightarrow> bool" where
  \<comment> \<open>\<^verbatim>\<open>not schema\<close> for a dictionary\<close>
  "is_empty_schema s =
     (s_description s = None \<and> s_type s = None \<and> s_ref s = None \<and> s_items s = None
      \<and> s_additionalProperties s = None \<and> s_properties s = None \<and> s_required s = None
      \<and> s_enum s = None \<and> s_oneOf s = None \<and> \<not> s_more s)"

text \<open>The document is the mapping under its key \<^verbatim>\<open>definitions\<close>, in the order of the file.\<close>

type_synonym definitions = "(string \<times> schema) list"

text \<open>A feature is the dictionary \<^verbatim>\<open>parse_properties\<close> builds for one node of the tree.\<close>

datatype feature = Feature
  (f_name: string)
  (f_type: string)
  (f_description: string)
  (f_sub_features: "feature list")
  (f_type_data: string)

text \<open>
  The state of a \<^verbatim>\<open>SchemaProcessor\<close> that the generation reads and writes. The attributes
  \<^verbatim>\<open>is_cardinality\<close> and \<^verbatim>\<open>is_deprecated\<close> are reset for every property and read before any
  other property is visited, so they are values of the step that sets them.
\<close>

record processor =
  resolved_references :: "(string \<times> schema) list"
  processed_features :: "string set"
  seen_descriptions :: "string set"
  descriptions_values :: "description_entry list"
  descriptions_restrictions :: "description_entry list"
  descriptions_dependencies :: "description_entry list"
  feature_aux_original_type :: string

definition new_processor :: processor where
  "new_processor = \<lparr>resolved_references = [], processed_features = {}, seen_descriptions = {},
     descriptions_values = [], descriptions_restrictions = [], descriptions_dependencies = [],
     feature_aux_original_type = []\<rparr>"

definition boolean_keywords :: "string list" where
  "boolean_keywords = [''AppArmorProfile_localhostProfile'', ''appArmorProfile_localhostProfile'',
     ''seccompProfile_localhostProfile'', ''SeccompProfile_localhostProfile'',
     ''IngressClassList_items_spec_parameters_namespace'', ''IngressClassParametersReference_namespace'',
     ''IngressClassSpec_parameters_namespace'', ''IngressClass_spec_parameters_namespace'',
     ''_tolerations_value'', ''_Toleration_value'', ''_clientConfig_url'', ''_WebhookClientConfig_url'',
     ''_succeededIndexes'', ''_succeededCount'', ''source_resourceClaimName'', ''_ClaimSource_resourceClaimName'',
     ''_resourceClaimTemplateName'', ''_datasetUUID'', ''_datasetName'']"

definition boolean_keywords_regex :: "rx list list" where
  \<comment> \<open>\<^verbatim>\<open>.*_paramRef_name$\<close> and \<^verbatim>\<open>.*_ParamRef_name$\<close>\<close>
  "boolean_keywords_regex = [Star Any # lit ''_paramRef_name'' @ [Eol], Star Any # lit ''_ParamRef_name'' @ [Eol]]"

definition special_features_config :: "string list" where
  "special_features_config = [''_template_spec_'', ''_Pod_spec_'', ''_PodList_items_spec_'', ''_core_v1_PodSpec_'',
     ''_PodTemplateSpec_spec_'', ''_v1_PodSecurityContext_'', ''_v1_Container_securityContext_'',
     ''_v1_EphemeralContainer_securityContext_'', ''_v1_SecurityContext_'']"

definition sanitize_name :: "string \<Rightarrow> string" where
  "sanitize_name name = py_replace ''$'' [] (py_replace ''.'' ''_'' (py_replace ''-'' ''_'' name))"

text \<open>
  \<open>sanitize_type_data\<close> gives the type and whether it sets \<^verbatim>\<open>self.is_cardinality\<close>.
\<close>

definition sanitize_type_data :: "string \<Rightarrow> string \<times> bool" where
  "sanitize_type_data type_data =
     (if type_data = ''array'' then (''Boolean'', True)
      else if type_data = ''Object'' \<or> type_data = ''object'' then (''Boolean'', True)
      else if type_data = ''number'' \<or> type_data = ''Number'' then (''Integer'', False)
      else if type_data = ''Boolean'' then ([], False)
      else (type_data, False))"

subsection \<open>\<^verbatim>\<open>resolve_reference\<close>\<close>

text \<open>
  The pointer is cut at \<^verbatim>\<open>/\<close> and followed through the document, one dictionary key at
  a time; an absent key or an empty value ends the walk with \<^verbatim>\<open>None\<close>. In the typed
  document the keys that lead from a schema to a schema are \<^verbatim>\<open>items\<close>,
  \<^verbatim>\<open>additionalProperties\<close> and \<^verbatim>\<open>properties\<close> followed by a property name. A pointer that
  ends anywhere else does not denote a schema (the code would return a string or a list,
  or catch the \<^verbatim>\<open>AttributeError\<close> of \<^verbatim>\<open>get\<close> and return \<^verbatim>\<open>None\<close>); it is unresolved here.
\<close>

fun walk_schema :: "schema \<Rightarrow> string list \<Rightarrow> schema option" where
  "walk_schema s [] = Some s"
| "walk_schema s [k] =
     (if k = ''items'' then
        (case s_items s of None \<Rightarrow> None | Some t \<Rightarrow> if is_empty_schema t then None else Some t)
      else if k = ''additionalProperties'' then
        (case s_additionalProperties s of None \<Rightarrow> None | Some t \<Rightarrow> if is_empty_schema t then None else Some t)
      else None)"
| "walk_schema s (k # n # ks) =
     (if k = ''items'' then
        (case s_items s of None \<Rightarrow> None
         | Some t \<Rightarrow> if is_empty_schema t then None else walk_schema t (n # ks))
      else if k = ''additionalProperties'' then
        (case s_additionalProperties s of None \<Rightarrow> None
         | Some t \<Rightarrow> if is_empty_schema t then None else walk_schema t (n # ks))
      else if k = ''properties'' then
        (case s_properties s of None \<Rightarrow> None
         | Some ps \<Rightarrow>
             (case map_of ps n of None \<Rightarrow> None
              | Some t \<Rightarrow> if is_empty_schema t then None else walk_schema t ks))
      else None)"

definition walk_document :: "definitions \<Rightarrow> string list \<Rightarrow> schema option" where
  "walk_document defs parts =
     (case parts of
        k # name # ks \<Rightarrow>
          if k = ''definitions'' then
            (case map_of defs name of None \<Rightarrow> None
             | Some s \<Rightarrow> if is_empty_schema s then None else walk_schema s ks)
          else None
      | _ \<Rightarrow> None)"

definition resolve_reference :: "definitions \<Rightarrow> processor \<Rightarrow> string \<Rightarrow> schema option \<times> processor" where
  "resolve_reference defs st ref =
     (case map_of (resolved_references st) ref of
        Some schema \<Rightarrow> (Some schema, st)
      | None \<Rightarrow>
          (let parts = py_split (strip_chars ref ''#/'') ''/''
           in case walk_document defs parts of
                None \<Rightarrow> (None, st)
              | Some schema \<Rightarrow>
                  (Some schema, st\<lparr>resolved_references := resolved_references st @ [(ref, schema)]\<rparr>)))"

subsection \<open>Descriptions: validity, requiredness, cleaning\<close>

text \<open>
  \<open>is_valid_description\<close> keeps the parameter order of its definition,
  \<^verbatim>\<open>(feature_name, description)\<close>.
\<close>

definition is_valid_description :: "processor \<Rightarrow> string \<Rightarrow> string \<Rightarrow> bool \<times> processor" where
  "is_valid_description st feature_name description =
     (if length description < 10 then (False, st)
      else (let description_key = feature_name @ '':'' @ description
            in if description_key \<in> seen_descriptions st then (False, st)
               else (True, st\<lparr>seen_descriptions := insert description_key (seen_descriptions st)\<rparr>)))"

definition is_required_based_on_description :: "string \<Rightarrow> bool" where
  "is_required_based_on_description description = endswith (py_strip description) ''Required.''"

definition clean_description :: "string \<Rightarrow> string" where
  \<comment> \<open>the chain of \<^verbatim>\<open>replace\<close> calls that every use site repeats\<close>
  "clean_description description =
     py_replace ''//'' ''_'' (py_replace ''.'' [] (py_replace [backslash] ''_'' (py_replace [dq] []
       (py_replace ''}'' [] (py_replace ''{'' [] (py_replace [sq] ''_'' (py_replace [CHR 0xB4] []
         (py_replace [backtick] [] (py_replace [newline] [] description)))))))))"

definition ascii_only :: "string \<Rightarrow> string" where
  \<comment> \<open>\<^verbatim>\<open>''.join(c for c in s if ord(c) < 128)\<close>\<close>
  "ascii_only s = filter is_ascii s"

subsection \<open>\<^verbatim>\<open>patterns_process_enum_values_default\<close>\<close>

definition quote :: cset where
  \<comment> \<open>\<^verbatim>\<open>["\']\<close>\<close>
  "quote = Among [dq, sq]"

definition default_class :: cset where
  \<comment> \<open>\<^verbatim>\<open>[\w\s\.\-"\']\<close>\<close>
  "default_class = Union [Word, Space, Among [CHR ''.'', CHR ''-'', dq, sq]]"

definition default_patterns :: "rx list list" where
  \<open>default_patterns =
     [\<comment> \<open>\<^verbatim>\<open>(?<=defaults to\s)(["\']?[\w\s\.\-"\']+?)(?=\.)\<close>, IGNORECASE\<close>
      [behind (charsi ''defaults to'' @ [Space]), Grp [Opt [C quote], PlusL default_class], Ahead [C (Ch CHR ''.'')]],
      \<comment> \<open>\<^verbatim>\<open>(?<=Defaults to\s)(["\']?[\w\s\.\-"\']+["\']?)\<close>\<close>
      [behind (chars ''Defaults to'' @ [Space]), Grp [Opt [C quote], Plus default_class, Opt [C quote]]],
      \<comment> \<open>\<^verbatim>\<open>Implicitly inferred to be\s["\'](.*?)["\']\<close>, IGNORECASE\<close>
      liti ''Implicitly inferred to be'' @ [C Space, C quote, Grp [StarL Any], C quote],
      \<comment> \<open>\<^verbatim>\<open>default to use\s["\'](.*?)["\'](?=\.)\<close>, IGNORECASE\<close>
      liti ''default to use'' @ [C Space, C quote, Grp [StarL Any], C quote, Ahead [C (Ch CHR ''.'')]],
      \<comment> \<open>\<^verbatim>\<open>\. Default is\s["\']?(.*?)["\']?(?=\.)\<close>, IGNORECASE\<close>
      liti ''. Default is'' @ [C Space, Opt [C quote], Grp [StarL Any], Opt [C quote], Ahead [C (Ch CHR ''.'')]]]\<close>

definition default_candidate :: "string \<Rightarrow> string" where
  "default_candidate match =
     (let first_part = split_first match ''.'';
          v = py_strip (py_replace ''.'' [] (py_replace [sq] [] (py_replace [dq] [] (py_strip first_part))))
      in if v = ''*'' then ''estrella'' else v)"

definition patterns_process_enum_values_default :: "string \<Rightarrow> string option" where
  "patterns_process_enum_values_default description =
     (let patterns_default_values = [''defaults to'', ''. implicitly inferred to be'',
            ''the currently supported reasons are'', ''. default is'']
      in if \<not> any_in patterns_default_values (py_lower description) then None
         else (let default_value =
                     foldl (\<lambda>default_value match.
                              let v = default_candidate match
                              in if v \<noteq> [] \<and> length v \<le> 50 then v else default_value)
                           []
                           (concat (map (\<lambda>pattern. findall_group pattern description) default_patterns))
               in if default_value = [] then None else Some default_value))"

subsection \<open>\<^verbatim>\<open>extract_values\<close>\<close>

definition palabras_patrones_minus :: "string list" where
  "palabras_patrones_minus = [''values are'', ''following states'', ''. must be'', ''implicitly inferred to be'',
     ''the currently supported reasons are'', ''. can be'', ''it can be in any of following states'',
     ''valid options are'', ''a value of `'', ''the supported types are'', ''valid operators are'',
     ''status of the condition,'', ''status of the condition.'', ''type of the condition.'',
     ''status of the condition ('', ''node address type'', ''should be one of'', ''will be one of'',
     ''means that requests that'', ''only valid values'', ''a volume should be'', ''the metric type is'',
     ''valid policies are'']"

definition palabras_patrones_may :: "string list" where
  "palabras_patrones_may = [''Supports'', ''Type of job condition'', ''Status of the condition for'',
     ''Type of condition'', ''. One of'', ''Host Caching mode'', ''This may be set to'', ''Supported values:'',
     ''completions are tracked. It can be'', ''Services can be'', ''this API group are'']"

definition listing :: cset where
  \<comment> \<open>\<^verbatim>\<open>[a-zA-Z\s,]\<close>\<close>
  "listing = Union [Letter, Space, Ch CHR '','']"

definition listed_after :: "cset list \<Rightarrow> rx list" where
  \<comment> \<open>\<^verbatim>\<open>(?<=...)([a-zA-Z\s,]+)(?=\.)\<close>\<close>
  "listed_after cs = [behind cs, Grp [Plus listing], Ahead [C (Ch CHR ''.'')]]"

definition one_word_of :: "string list \<Rightarrow> rx list" where
  \<comment> \<open>\<^verbatim>\<open>\b(A|B|C)\b\<close>\<close>
  "one_word_of ws = [WordB, Grp [Alt (map lit ws)], WordB]"

definition value_patterns :: "rx list list" where
  \<open>value_patterns =
     [\<comment> \<open>\<^verbatim>\<open>\\?["\'](.*?)\\?["\']\<close>\<close>
      [Opt [C (Ch backslash)], C quote, Grp [StarL Any], Opt [C (Ch backslash)], C quote],
      \<comment> \<open>\<^verbatim>\<open>-\s*[\'"]?([a-zA-Z/.\s]+[a-zA-Z])[\'"]?\s*:\<close>, IGNORECASE\<close>
      [C (Ch CHR ''-''), Star Space, Opt [C quote],
       Grp [Plus (Union [Letter, Among ''/.'', Space]), C Letter], Opt [C quote], Star Space, C (Ch CHR '':'')],
      \<comment> \<open>\<^verbatim>\<open>(?<=Valid values are:)[\s\S]*?(?=\.)\<close>\<close>
      [behind (chars ''Valid values are:''), StarL All, Ahead [C (Ch CHR ''.'')]],
      \<comment> \<open>\<^verbatim>\<open>(?<=Possible values are:)[\s\S]*?(?=\.)\<close>\<close>
      [behind (chars ''Possible values are:''), StarL All, Ahead [C (Ch CHR ''.'')]],
      \<comment> \<open>\<^verbatim>\<open>(?<=Allowed values are)[\s\S]*?(?=\.|\s+Required)\<close>, IGNORECASE\<close>
      [behind (charsi ''Allowed values are''), StarL All,
       Ahead [Alt [[C (Ch CHR ''.'')], Plus Space # liti ''Required'']]],
      \<comment> \<open>\<^verbatim>\<open>\b(UDP.*?SCTP)\b\<close>\<close>
      [WordB, Grp (lit ''UDP'' @ [StarL Any] @ lit ''SCTP''), WordB],
      \<comment> \<open>\<^verbatim>\<open>\n\s*-\s+(\w+)\s*\n\<close>, IGNORECASE\<close>
      [C (Ch newline), Star Space, C (Ch CHR ''-''), Plus Space, Grp [Plus Word], Star Space, C (Ch newline)],
      \<comment> \<open>\<^verbatim>\<open>\b(Localhost|RuntimeDefault|Unconfined)\b\<close>\<close>
      one_word_of [''Localhost'', ''RuntimeDefault'', ''Unconfined''],
      \<comment> \<open>\<^verbatim>\<open>\b(Retain|Delete|Recycle)\b\<close>\<close>
      one_word_of [''Retain'', ''Delete'', ''Recycle''],
      \<comment> \<open>\<^verbatim>\<open>(?<=The currently supported values are\s)([a-zA-Z\s,]+)(?=\.)\<close>, IGNORECASE\<close>
      listed_after (charsi ''The currently supported values are'' @ [Space]),
      \<comment> \<open>\<^verbatim>\<open>(?<=Valid operators are\s)([A-Za-z\s,]+)(?=\.)\<close>, IGNORECASE\<close>
      listed_after (charsi ''Valid operators are'' @ [Space]),
      \<comment> \<open>\<^verbatim>\<open>\b(Gt|Lt)\b\<close>\<close>
      one_word_of [''Gt'', ''Lt''],
      \<comment> \<open>\<^verbatim>\<open>(?<=Acceptable values are:)([A-Za-z\s,]+)(?=\()\<close>\<close>
      [behind (chars ''Acceptable values are:''), Grp [Plus listing], Ahead [C (Ch CHR ''('')]],
      \<comment> \<open>\<^verbatim>\<open>(?<=status of the condition, one of\s)([a-zA-Z\s,]+)(?=\.)\<close>, IGNORECASE\<close>
      listed_after (charsi ''status of the condition, one of'' @ [Space]),
      \<comment> \<open>\<^verbatim>\<open>(?<=Type of job condition,\s)([a-zA-Z\s,]+)(?=\.)\<close>\<close>
      listed_after (chars ''Type of job condition,'' @ [Space]),
      \<comment> \<open>\<^verbatim>\<open>(?<=status of the condition. Can be\s)([a-zA-Z\s,]+)(?=\.)\<close>\<close>
      listed_after (chars ''status of the condition'' @ [Any] @ chars '' Can be'' @ [Space]),
      \<comment> \<open>\<^verbatim>\<open>(?<=Types include\s)([a-zA-Z\s,]+)(?=\.)\<close>\<close>
      listed_after (chars ''Types include'' @ [Space]),
      \<comment> \<open>\<^verbatim>\<open>(?<=status of the condition \()([a-zA-Z\s,]+)(?=\))\<close>\<close>
      [behind (chars ''status of the condition (''), Grp [Plus listing], Ahead [C (Ch CHR '')'')]],
      \<comment> \<open>\<^verbatim>\<open>(?<=Node address type, one of\s)([a-zA-Z\s,]+)(?=\.)\<close>\<close>
      listed_after (chars ''Node address type, one of'' @ [Space]),
      \<comment> \<open>\<^verbatim>\<open>(?<=. One of\s)([a-zA-Z\s,]+)(?=\.)\<close>\<close>
      listed_after ([Any] @ chars '' One of'' @ [Space]),
      \<comment> \<open>\<^verbatim>\<open>(?<=Host Caching mode:\s)([a-zA-Z\s,]+)(?=\.)\<close>\<close>
      listed_after (chars ''Host Caching mode:'' @ [Space]),
      \<comment> \<open>\<^verbatim>\<open>(?<=Supported values:\s)([a-zA-Z\s,]+)(?=\.)\<close>\<close>
      listed_after (chars ''Supported values:'' @ [Space]),
      \<comment> \<open>\<^verbatim>\<open>\b(Shared|Dedicated|Managed)\b\<close>\<close>
      one_word_of [''Shared'', ''Dedicated'', ''Managed''],
      \<comment> \<open>\<^verbatim>\<open>(?<=a volume should be\s)([a-zA-Z\s,]+)(?=\.)\<close>\<close>
      listed_after (chars ''a volume should be'' @ [Space]),
      \<comment> \<open>\<^verbatim>\<open>\b(NonIndexed|Indexed)\b\<close>\<close>
      one_word_of [''NonIndexed'', ''Indexed''],
      \<comment> \<open>\<^verbatim>\<open>(?<=the metric type is\s)([a-zA-Z\s,]+)\<close>\<close>
      [behind (chars ''the metric type is'' @ [Space]), Grp [Plus listing]],
      \<comment> \<open>\<^verbatim>\<open>(?<=Valid policies are\s)([a-zA-Z\s,]+)(?=\.)\<close>\<close>
      listed_after (chars ''Valid policies are'' @ [Space])]\<close>

definition value_separator :: "rx list" where
  \<comment> \<open>\<^verbatim>\<open>,\s*|\s+or\s+|\sor|or\s|\s+and\s+|and\s\<close>\<close>
  "value_separator =
     [Alt [[C (Ch CHR '',''), Star Space],
           Plus Space # lit ''or'' @ [Plus Space],
           C Space # lit ''or'',
           lit ''or'' @ [C Space],
           Plus Space # lit ''and'' @ [Plus Space],
           lit ''and'' @ [C Space]]]"

definition findall_strings :: "rx list \<Rightarrow> string \<Rightarrow> string list" where
  \<comment> \<open>\<^verbatim>\<open>findall\<close> gives the group of a pattern with one group and the whole match of a
      pattern without; every group of the patterns above takes part in every match\<close>
  "findall_strings p s = map (\<lambda>(m, caps). case caps of [] \<Rightarrow> m | g # _ \<Rightarrow> g) (re_findall p s)"

definition normalize_value :: "string \<Rightarrow> string" where
  "normalize_value v0 =
     py_replace ''/'' ''_'' (py_replace '' '' ''_'' (py_replace [backtick] [] (py_replace [sq] []
       (py_replace [dq] [] (py_replace ''*'' ''estrella'' (py_strip v0))))))"

definition value_accepted :: "string \<Rightarrow> bool" where
  "value_accepted v =
     (v \<noteq> [] \<and> length v \<le> 24
      \<and> \<not> any_in [''.'', ''{'', ''}'', ''['', '']'', '';'', '':'', ''prefixed_keys''] v
      \<and> \<not> (length v \<ge> 20 \<and> py_in ''_'' v))"

definition candidate_values :: "string \<Rightarrow> string list" where
  \<comment> \<open>the list \<^verbatim>\<open>values\<close> after the loop over the patterns\<close>
  "candidate_values description =
     (let default_value = patterns_process_enum_values_default description
      in concat (map (\<lambda>pattern.
           concat (map (\<lambda>match.
             concat (map (\<lambda>v0.
               let v = normalize_value v0
               in if value_accepted v
                  then [if Some v = default_value then v @ '' {default}'' else v]
                  else [])
               (re_split value_separator match)))
             (findall_strings pattern description)))
           value_patterns))"

definition case_not_none :: "string set" where
  "case_not_none = set [''NodePort'', ''ClusterIP {default}'', ''None'', ''LoadBalancer'', ''ExternalName'']"

definition case_not_policies :: "string set" where
  "case_not_policies = set [''IfHealthyBudget'', ''AlwaysAllow'', ''Ready'', ''True'', ''Running'']"

text \<open>The result is a Python set: \<open>None\<close> or a set of at least two strings.\<close>

definition extract_values :: "string \<Rightarrow> string set option" where
  "extract_values description =
     (if \<not> any_in palabras_patrones_minus (py_lower description) \<and> \<not> any_in palabras_patrones_may description
      then None
      else (let values = set (candidate_values description)
            in if values = {} \<or> card values = 1 then None
               else if case_not_none = values then Some (values - {''None''})
               else if case_not_policies = values then Some (case_not_policies - set [''Ready'', ''True'', ''Running''])
               else Some values))"

subsection \<open>\<^verbatim>\<open>categorize_description\<close>\<close>

definition never_pattern :: "rx list" where
  \<comment> \<open>\<^verbatim>\<open>^\b$\<close>, the pattern of the categories \<^verbatim>\<open>values\<close> and \<^verbatim>\<open>dependencies\<close>\<close>
  "never_pattern = [Bol, WordB, Eol]"

definition restrictions_pattern :: "rx list" where
  \<comment> \<open>the alternatives of the category \<^verbatim>\<open>restrictions\<close>, IGNORECASE; an unescaped dot is any character\<close>
  "restrictions_pattern =
     [Alt [liti ''If the operator is'',
           liti ''template'' @ [C Any] @ liti ''spec'' @ [C Any] @ liti ''restartPolicy'',
           liti ''conditions may not be'',
           liti ''Details about a waiting'',
           liti ''TCPSocket is NOT'',
           liti ''must be between'',
           liti ''Note that this field cannot be set when'',
           liti ''valid port number'',
           liti ''must be in the range'',
           liti ''must be greater than'',
           liti ''are mutually exclusive properties'',
           liti ''Must be set if type is'',
           liti ''field MUST be empty if'',
           liti ''must be non-empty if and only if'',
           liti ''only if type'',
           liti ''. Required when'',
           liti ''required when scope'',
           liti ''. At least one of'',
           liti ''a least one of'',
           liti ''Exactly one of'',
           liti ''resource access request'',
           liti ''datasetUUID is'',
           liti ''succeededIndexes specifies'',
           liti ''Represents the requirement on the container'',
           liti ''ResourceClaim object in the same namespace as this pod'',
           liti ''indicates which one of'',
           liti ''may be non-empty only if'',
           liti ''Minimum value is'',
           liti ''Value must be non-negative'',
           liti ''minimum valid value for'',
           liti ''in the range 1-'']]"

text \<open>
  The call of \<open>is_valid_description\<close> passes \<^verbatim>\<open>(description, feature_name)\<close>, as the source
  does.
\<close>

definition categorize_description :: "processor \<Rightarrow> string \<Rightarrow> string \<Rightarrow> string \<Rightarrow> bool \<times> processor" where
  "categorize_description st description feature_name type_data0 =
     (case is_valid_description st description feature_name of
        (False, st') \<Rightarrow> (False, st')
      | (True, st') \<Rightarrow>
          (let type_data = (if type_data0 = [] then ''Boolean'' else type_data0);
               feature_name_descriptions =
                 (if py_in ''cardinality'' feature_name then split_first feature_name '' cardinality''
                  else if py_in ''{'' feature_name then split_first feature_name '' {''
                  else feature_name);
               description_entry = \<lparr>d_feature_name = feature_name_descriptions, d_description = description,
                                     d_type_data = type_data\<rparr>
           in if re_search never_pattern description \<noteq> None then
                (True, st'\<lparr>descriptions_values := descriptions_values st' @ [description_entry]\<rparr>)
              else if re_search restrictions_pattern description \<noteq> None then
                (True, st'\<lparr>descriptions_restrictions := descriptions_restrictions st' @ [description_entry]\<rparr>)
              else if re_search never_pattern description \<noteq> None then
                (True, st'\<lparr>descriptions_dependencies := descriptions_dependencies st' @ [description_entry]\<rparr>)
              else (False, st')))"

subsection \<open>\<^verbatim>\<open>process_oneOf\<close>\<close>

definition braces_pattern :: "rx list" where
  \<comment> \<open>\<^verbatim>\<open>\s*\{.*?\}\<close>\<close>
  "braces_pattern = [Star Space, C (Ch CHR ''{''), StarL Any, C (Ch CHR ''}'')]"

definition strip_braces :: "string \<Rightarrow> string" where
  \<comment> \<open>\<^verbatim>\<open>re.sub(r'\s*\{.*?\}', '', name)\<close>\<close>
  "strip_braces name = re_sub_empty braces_pattern name"

definition leaf :: "string \<Rightarrow> string \<Rightarrow> string \<Rightarrow> string \<Rightarrow> feature" where
  "leaf name type description type_data = Feature name type description [] type_data"

definition process_oneOf :: "schema list \<Rightarrow> string \<Rightarrow> string \<Rightarrow> feature" where
  "process_oneOf oneOf full_name type_feature =
     Feature full_name type_feature (''Feature based on oneOf in '' @ full_name)
       (concat (map (\<lambda>option.
          case s_type option of
            None \<Rightarrow> []
          | Some t \<Rightarrow>
              (let option_type_data = py_capitalize t;
                   sanitized_name0 = py_replace '' cardinality [1..*]'' [] full_name;
                   sanitized_name = (if py_in '' {default '' sanitized_name0 then strip_braces sanitized_name0
                                     else sanitized_name0);
                   aux_description_sub_feature = ''Sub-feature added of type '' @ option_type_data
               in [leaf (sanitized_name @ ''_as'' @ option_type_data @ '' {doc '' @ [sq] @ aux_description_sub_feature @ [sq] @ ''}'')
                        ''alternative'' aux_description_sub_feature (fst (sanitize_type_data option_type_data))]))
          oneOf))
       ''Boolean''"

subsection \<open>\<^verbatim>\<open>process_enum_defaultInte\<close>\<close>

definition patterns_default_values_numbers :: "string list" where
  "patterns_default_values_numbers = [''defaults to'', ''default value is'', ''default to'', ''default false'',
     ''Default is false'', ''is '' @ [dq] @ ''false'', ''is '' @ [dq] @ ''true'']"

definition not_a_digit_or_end :: rx where
  \<comment> \<open>\<^verbatim>\<open>(?=\D|$)\<close>\<close>
  "not_a_digit_or_end = Ahead [Alt [[C NonDigit], [Eol]]]"

definition default_number_patterns :: "rx list list" where
  \<open>default_number_patterns =
     [\<comment> \<open>\<^verbatim>\<open>(?<=Defaults to\s)(\d+)(?=\D|$)\<close>, IGNORECASE\<close>
      [behind (charsi ''Defaults to'' @ [Space]), Grp [Plus Digit], not_a_digit_or_end],
      \<comment> \<open>\<^verbatim>\<open>(?<=Default value is\s)(\d+)(?=\D|$)\<close>, IGNORECASE\<close>
      [behind (charsi ''Default value is'' @ [Space]), Grp [Plus Digit], not_a_digit_or_end],
      \<comment> \<open>\<^verbatim>\<open>(?<=Default to\s)(\d+)(?=\D|$)\<close>\<close>
      [behind (chars ''Default to'' @ [Space]), Grp [Plus Digit], not_a_digit_or_end],
      \<comment> \<open>\<^verbatim>\<open>(?<=Default to\s)([\w\s\.])(?=\.)\<close>\<close>
      [behind (chars ''Default to'' @ [Space]), Grp [C (Union [Word, Space, Ch CHR ''.''])], Ahead [C (Ch CHR ''.'')]]]\<close>

definition pattern_defaults :: "rx list" where
  \<open>pattern_defaults = \<comment> \<open>\<^verbatim>\<open>Default is\s+\\?"(true|false)\\?"\<close>\<close>
     lit ''Default is'' @ [Plus Space, Opt [C (Ch backslash)], C (Ch dq), Grp [Alt [lit ''true'', lit ''false'']],
                          Opt [C (Ch backslash)], C (Ch dq)]\<close>

definition with_default :: "string \<Rightarrow> string \<Rightarrow> string \<Rightarrow> string" where
  \<comment> \<open>\<^verbatim>\<open>f"{full_name} {{default {value}, doc '{cleaned_description}'}}"\<close>\<close>
  "with_default full_name v cleaned_description =
     full_name @ '' {default '' @ v @ '', doc '' @ [sq] @ cleaned_description @ [sq] @ ''}''"

definition process_enum_defaultInte :: "schema \<Rightarrow> string \<Rightarrow> string \<Rightarrow> string \<times> bool" where
  "process_enum_defaultInte property full_name description =
     (let cleaned_description = ascii_only (clean_description description);
          enum = (case s_enum property of None \<Rightarrow> [] | Some vs \<Rightarrow> vs)
      in if enum \<noteq> [] then
           (with_default full_name ([sq] @ hd enum @ [sq]) cleaned_description, True)
         else if any_in patterns_default_values_numbers (py_lower description) then
           (let (name1, bool1) =
                  foldl (\<lambda>(default_full_name, default_bool) pattern.
                           case re_search pattern description of
                             None \<Rightarrow> (default_full_name, default_bool)
                           | Some matches \<Rightarrow>
                               (let default = group matches 1;
                                    default_integer = (if default = ''0644'' then ''644'' else default)
                                in (with_default full_name default_integer cleaned_description, True)))
                        ([], False) default_number_patterns;
                (name2, bool2) =
                  (case re_search pattern_defaults description of
                     None \<Rightarrow> (name1, bool1)
                   | Some m \<Rightarrow> (with_default full_name (group m 1) cleaned_description, True));
                (name3, bool3) =
                  (if py_in ''Default to false'' description \<or> py_in ''defaults to false'' (py_lower description)
                      \<or> py_in ''default false'' (py_lower description) \<or> py_in ''Default is false'' description then
                     (if py_in ''defaults to false'' (py_lower description) \<and> py_in ''deprecated.'' (py_lower description)
                      then (full_name @ '' {default false, deprecated, doc '' @ [sq] @ cleaned_description @ [sq] @ ''}'', True)
                      else (with_default full_name ''false'' cleaned_description, True))
                   else if py_in ''Default to true'' description \<or> py_in ''defaults to true'' (py_lower description) then
                     (with_default full_name ''true'' cleaned_description, True)
                   else (name2, bool2))
            in if name3 \<noteq> [] then (name3, bool3) else (full_name, bool3))
         else (full_name, False))"

subsection \<open>\<^verbatim>\<open>update_type_data\<close>\<close>

definition keeps_original_type :: "string \<Rightarrow> bool" where
  \<comment> \<open>the name of a synthetic child, which is never coerced\<close>
  "keeps_original_type full_name = (endswith full_name ''nameStr'' \<or> endswith full_name ''valueInt'')"

definition update_type_data :: "processor \<Rightarrow> string \<Rightarrow> string \<Rightarrow> string \<Rightarrow> (string \<times> bool) \<times> processor" where
  "update_type_data st full_name feature_type_data0 description =
     (let (aux1, type1, abstract1) =
            (if any_in boolean_keywords full_name \<and> \<not> keeps_original_type full_name
             then (feature_type_data0, ''Boolean'', True)
             else ([], feature_type_data0, False));
          (aux2, type2, abstract2) =
            (if any_in special_features_config full_name
                \<and> py_in ''Note that this field cannot be set when'' description
                \<and> \<not> keeps_original_type full_name
             then (type1, ''Boolean'',
                   if type1 \<noteq> ''boolean'' \<and> type1 \<noteq> ''Boolean'' \<and> type1 \<noteq> [] then True else abstract1)
             else (aux1, type1, abstract1));
          (aux3, type3, abstract3) =
            foldl (\<lambda>(aux, type, abstract) pattern.
                     if re_search pattern full_name \<noteq> None \<and> \<not> keeps_original_type full_name
                     then (type, ''Boolean'', True)
                     else (aux, type, abstract))
                  (aux2, type2, abstract2) boolean_keywords_regex
      in ((type3, abstract3), st\<lparr>feature_aux_original_type := aux3\<rparr>))"

subsection \<open>\<^verbatim>\<open>parse_properties\<close>: one property before its structure is expanded\<close>

definition qualified_name :: "string \<Rightarrow> string \<Rightarrow> string" where
  \<comment> \<open>\<^verbatim>\<open>f"{current_parent}_{sanitized_name}" if current_parent else sanitized_name\<close>\<close>
  "qualified_name current_parent prop =
     (if current_parent \<noteq> [] then current_parent @ ''_'' @ sanitize_name prop else sanitize_name prop)"

definition cardinality_name :: "bool \<Rightarrow> string \<Rightarrow> string \<Rightarrow> string" where
  "cardinality_name is_cardinality description full_name =
     (if is_cardinality \<and> py_in ''cardinality'' full_name then
        (let n = py_replace '' cardinality [1..*]'' [] full_name
         in if py_in ''unstructured key value map'' description then n @ '' cardinality [0..*]''
            else n @ '' cardinality [1..*]'')
      else if is_cardinality \<and> \<not> py_in ''cardinality'' full_name then
        (if py_in ''unstructured key value map'' description then full_name @ '' cardinality [0..*]''
         else full_name @ '' cardinality [1..*]'')
      else py_replace '' cardinality [0..*]'' [] (py_replace '' cardinality [1..*]'' [] full_name))"

definition deprecated_text :: "string \<Rightarrow> bool" where
  \<comment> \<open>the test on \<^verbatim>\<open>cleaned_description\<close> that sets \<^verbatim>\<open>self.is_deprecated\<close>\<close>
  "deprecated_text cleaned =
     (py_in ''DEPRECATED:'' cleaned \<or> py_in ''deprecated.'' (py_lower cleaned)
      \<or> py_in ''This field is deprecated,'' cleaned \<or> py_in ''deprecated field'' cleaned)"

text \<open>
  What the first part of the loop body (up to the call of \<open>extract_values\<close>) leaves for
  the rest: the name without its annotations, the fields of the new \<^verbatim>\<open>feature\<close>
  dictionary, the extracted values and the cardinality flag.
\<close>

record prepared =
  p_full_name :: string
  p_feature_name :: string
  p_feature_type :: string
  p_description :: string
  p_type_data :: string
  p_extracted_values :: "string set option"
  p_is_cardinality :: bool

text \<open>
  The variables \<^verbatim>\<open>abstract_bool\<close> and \<^verbatim>\<open>cleaned_description\<close> are local to a call of
  \<^verbatim>\<open>parse_properties\<close> and are only assigned for a property with a description: a property
  without one sees the values of the last property that had one. \<^verbatim>\<open>cleaned_description\<close>
  is unbound (\<open>None\<close>) until then.
\<close>

definition prepare ::
  "processor \<Rightarrow> string \<Rightarrow> string list \<Rightarrow> bool \<Rightarrow> string option \<Rightarrow> string \<Rightarrow> schema
     \<Rightarrow> error + (prepared \<times> processor \<times> bool \<times> string option)" where
  "prepare st current_parent current_required abstract_bool0 cleaned_description0 prop details =
     (let full_name0 = qualified_name current_parent prop;
          description = (case s_description details of None \<Rightarrow> [] | Some d \<Rightarrow> d);
          is_required_by_description = is_required_based_on_description description;
          feature_type = (if prop \<in> set current_required \<or> is_required_by_description then ''mandatory'' else ''optional'');
          (feature_type_data1, is_cardinality) =
            sanitize_type_data (case s_type details of None \<Rightarrow> ''Boolean'' | Some t \<Rightarrow> t);
          (full_name1, default_bool) = process_enum_defaultInte details full_name0 description;
          full_name2 = cardinality_name is_cardinality description full_name1;
          (full_name3, feature_type_data, st', abstract_bool, cleaned_description) =
            (if description \<noteq> [] then
               (let ((feature_type_data2, abstract_bool'), st1) =
                      update_type_data st full_name2 feature_type_data1 description;
                    (categorized, st2) = categorize_description st1 description full_name2 feature_type_data2;
                    cleaned = ascii_only (clean_description description);
                    is_deprecated = deprecated_text cleaned;
                    named = (if \<not> default_bool \<and> \<not> abstract_bool' \<and> \<not> is_deprecated
                             then full_name2 @ '' {doc '' @ [sq] @ cleaned @ [sq] @ ''}''
                             else if is_deprecated \<and> \<not> default_bool
                             then full_name2 @ '' {deprecated, doc '' @ [sq] @ cleaned @ [sq] @ ''}''
                             else full_name2)
                in (named, feature_type_data2, st2, abstract_bool', Some cleaned))
             else (full_name2, feature_type_data1, st, abstract_bool0, cleaned_description0))
      in if abstract_bool \<and> cleaned_description = None then Inl UnboundLocalError
         else Inr (\<lparr>p_full_name = strip_braces full_name3,
                     p_feature_name = (if \<not> abstract_bool then full_name3
                                       else full_name3 @ '' {abstract, doc '' @ [sq] @ the cleaned_description @ [sq] @ ''}''),
                     p_feature_type = feature_type,
                     p_description = description,
                     p_type_data = (if feature_type_data = ''Boolean'' then [] else feature_type_data),
                     p_extracted_values = extract_values description,
                     p_is_cardinality = is_cardinality\<rparr>,
                   st', abstract_bool, cleaned_description))"

subsection \<open>\<^verbatim>\<open>parse_properties\<close>: the expansion of \<^verbatim>\<open>$ref\<close>, \<^verbatim>\<open>items\<close> and \<^verbatim>\<open>additionalProperties\<close>\<close>

text \<open>
  The three branches either leave the property (\<^verbatim>\<open>continue\<close>, when the reference is on the
  stack of the branch), raise, add children without a recursive call, or call
  \<^verbatim>\<open>parse_properties\<close> on the properties of the schema the reference resolves to. \<open>expand\<close>
  decides which; the recursive call itself is made by the loop below. In the branches
  that push the reference and pop it with no call in between, the stack is as before.
\<close>

datatype plan =
    Skip
  | Fail error
  | Children processor "feature list" string
  | Descend processor string "(string \<times> schema) list" "string list" "feature list"

definition without_cardinality :: "string \<Rightarrow> string" where
  \<comment> \<open>\<^verbatim>\<open>full_name.replace(" cardinality [1..*]", "")\<close>\<close>
  "without_cardinality full_name = py_replace '' cardinality [1..*]'' [] full_name"

definition doc :: "string \<Rightarrow> string" where
  \<comment> \<open>\<^verbatim>\<open>{doc '...'}\<close>, with the blank before it\<close>
  "doc text = '' {doc '' @ [sq] @ text @ [sq] @ ''}''"

definition sanitized_ref :: "string \<Rightarrow> string" where
  \<comment> \<open>\<^verbatim>\<open>sanitize_name(sanitize_name(ref.split('/')[-1]).split('_')[-1])\<close>\<close>
  "sanitized_ref ref = sanitize_name (split_last (sanitize_name (split_last ref ''/'')) ''_'')"

definition schema_description :: "schema \<Rightarrow> string" where
  \<comment> \<open>\<^verbatim>\<open>schema.get('description', '')\<close>\<close>
  "schema_description s = (case s_description s of None \<Rightarrow> [] | Some d \<Rightarrow> d)"

definition schema_required :: "schema \<Rightarrow> string list" where
  \<comment> \<open>\<^verbatim>\<open>schema.get('required', [])\<close>\<close>
  "schema_required s = (case s_required s of None \<Rightarrow> [] | Some r \<Rightarrow> r)"

definition expand_ref :: "definitions \<Rightarrow> processor \<Rightarrow> string list \<Rightarrow> prepared \<Rightarrow> string \<Rightarrow> plan" where
  "expand_ref defs st local_stack_refs p ref =
     (let full_name = p_full_name p in
      if ref \<in> set local_stack_refs then Skip
      else (case resolve_reference defs st ref of
              (None, st1) \<Rightarrow> Children st1 [] full_name
            | (Some ref_schema, st1) \<Rightarrow>
                (case s_properties ref_schema of
                   Some sub_properties \<Rightarrow>
                     Descend st1 ref sub_properties (schema_required ref_schema)
                       (if endswith full_name ''emptyDir'' \<or> endswith full_name ''EmptyDirVolumeSource''
                        then [leaf (full_name @ ''_isEmpty {doc '' @ [sq] @ ''Added option to select when emptyDir is empty declared {} '' @ [sq] @ ''}'')
                                ''optional''
                                (''{doc '' @ [sq] @ ''Added option to select when emptyDir is empty declared {} '' @ [sq] @ ''}'') []]
                        else [])
                 | None \<Rightarrow>
                     (case s_oneOf ref_schema of
                        Some oneOf \<Rightarrow>
                          Children st1 (f_sub_features (process_oneOf oneOf (sanitize_name full_name) (p_feature_type p))) full_name
                      | None \<Rightarrow>
                          (let aux_description_simples_schemas = schema_description ref_schema;
                               type_data_schemas_refs_simple =
                                 fst (sanitize_type_data (case s_type ref_schema of None \<Rightarrow> [] | Some t \<Rightarrow> t))
                           in Children st1
                                (leaf (full_name @ ''_'' @ sanitized_ref ref @ doc (ascii_only (clean_description aux_description_simples_schemas)))
                                   ''optional'' aux_description_simples_schemas type_data_schemas_refs_simple
                                 # (if endswith full_name ''creationTimestamp'' then
                                      [leaf (full_name @ ''_isNull'' @ doc ''Added option to select when creationTimestamp is empty declared: null'')
                                         ''optional''
                                         (''{doc '' @ [sq] @ ''Added option to select when creationTimestamp is empty declared: null'' @ [sq] @ ''}'') []]
                                    else if endswith full_name ''fieldsV1'' then
                                      [leaf (full_name @ ''_isEmpty02'' @ doc ''Added option to select when fieldsV1 is empty declared: {}'')
                                         ''optional''
                                         (''{doc '' @ [sq] @ ''Added option to select when fieldsV1 is empty declared: {}'' @ [sq] @ ''}'') []]
                                    else []))
                                full_name)))))"

definition expand_items :: "definitions \<Rightarrow> processor \<Rightarrow> string list \<Rightarrow> prepared \<Rightarrow> schema \<Rightarrow> plan" where
  "expand_items defs st local_stack_refs p items =
     (let full_name = p_full_name p; bool_added_value = (p_extracted_values p \<noteq> None) in
      case s_ref items of
        Some ref \<Rightarrow>
          if ref \<in> set local_stack_refs then Skip
          else (case resolve_reference defs st ref of
                  (None, st1) \<Rightarrow> Children st1 [] full_name
                | (Some ref_schema, st1) \<Rightarrow>
                    (case s_properties ref_schema of
                       Some sub_properties \<Rightarrow> Descend st1 ref sub_properties (schema_required ref_schema) []
                     | None \<Rightarrow>
                         (let full_name' = without_cardinality full_name;
                              aux_description_items_sanitized = ascii_only (clean_description (schema_description ref_schema))
                          in Children st1
                               [leaf (full_name' @ ''_'' @ sanitized_ref ref @ doc aux_description_items_sanitized)
                                  ''optional'' aux_description_items_sanitized []]
                               full_name')))
      | None \<Rightarrow>
          (case s_type items of
             Some type_data_items \<Rightarrow>
               if p_is_cardinality p then
                 (let full_name' = without_cardinality full_name in
                  if type_data_items = ''string'' \<and> \<not> bool_added_value then
                    (let d = ''Added String mandatory for complete structure Array in the model The modified is not in json but provide represents, Array of Strings: StringValue''
                     in Children st [leaf (full_name' @ ''_StringValue'' @ doc d) ''mandatory'' d ''String''] full_name')
                  else if type_data_items = ''integer'' then
                    (let d = ''Added Integer mandatory for complete structure Array in the model The modified is not in json but provide represents, Array of Integers: IntegerValue''
                     in Children st [leaf (full_name' @ ''_IntegerValue'' @ doc d) ''mandatory'' d ''Integer''] full_name')
                  else Children st [] full_name')
               else Children st [] full_name
           | None \<Rightarrow> Children st [] full_name))"

definition list_local_features_maps :: "string list" where
  "list_local_features_maps = [''Map of'', ''matchLabels is a map of'', ''label keys and values'']"

definition expand_additional :: "definitions \<Rightarrow> processor \<Rightarrow> string list \<Rightarrow> prepared \<Rightarrow> schema \<Rightarrow> plan" where
  "expand_additional defs st local_stack_refs p additional_properties =
     (let full_name = p_full_name p; bool_added_value = (p_extracted_values p \<noteq> None);
          description = p_description p in
      case s_ref additional_properties of
        Some ref \<Rightarrow>
          if ref \<in> set local_stack_refs then Skip
          else (case resolve_reference defs st ref of
                  (None, st1) \<Rightarrow> Children st1 [] full_name
                | (Some ref_schema, st1) \<Rightarrow>
                    (case s_properties ref_schema of
                       Some sub_properties \<Rightarrow> Descend st1 ref sub_properties [] []
                     | None \<Rightarrow>
                         (let full_name' = without_cardinality full_name in
                          case s_oneOf ref_schema of
                            Some oneOf \<Rightarrow>
                              Children st1 (f_sub_features (process_oneOf oneOf (sanitize_name full_name') (p_feature_type p))) full_name'
                          | None \<Rightarrow>
                              (let aux_description_additional_schemas = schema_description ref_schema
                               in Children st1
                                    [leaf (full_name' @ ''_'' @ sanitized_ref ref
                                             @ doc (ascii_only (clean_description aux_description_additional_schemas)))
                                       ''optional'' aux_description_additional_schemas []]
                                    full_name'))))
      | None \<Rightarrow>
          if s_items additional_properties \<noteq> None \<and> p_is_cardinality p then
            (case s_type (the (s_items additional_properties)) of
               None \<Rightarrow> Fail KeyError
             | Some type_data_additional_items \<Rightarrow>
                 if type_data_additional_items = ''string'' \<and> \<not> bool_added_value then
                   (let full_name' = without_cardinality full_name;
                        d = ''Added String mandatory for complete structure Array in the model into AdditionalProperties array Array of Strings: StringValue''
                    in Children st [leaf (full_name' @ ''_StringValueAdditional'' @ doc d) ''mandatory'' d ''String''] full_name')
                 else Children st [] full_name)
          else if s_type additional_properties \<noteq> None \<and> p_is_cardinality p then
            (if the (s_type additional_properties) = ''string'' \<and> \<not> bool_added_value then
               (let full_name' = py_replace '' cardinality [0..*]'' [] (without_cardinality full_name);
                    aux_description_string_properties = ''Added String mandatory for complete structure Object in the model The modified is not in json but provide represents, Array of Strings: StringValue'';
                    aux_description_maps_properties = ''Added Map for complete structure Object in the model The modified is not in json but provide represents, Array of pairs key, value: ValueMap, KeyMap'';
                    maps = (\<lambda>kind.
                      [leaf (full_name' @ ''_KeyMap'' @ doc (''key: '' @ aux_description_maps_properties)) kind
                         aux_description_maps_properties ''String'',
                       leaf (full_name' @ ''_ValueMap'' @ doc (''value: '' @ aux_description_maps_properties)) kind
                         aux_description_maps_properties ''String''])
                in if any_in list_local_features_maps description then Children st (maps ''mandatory'') full_name'
                   else if py_in ''unstructured key value map'' description then Children st (maps ''optional'') full_name'
                   else Children st [leaf (full_name' @ ''_StringValueAdditional'' @ doc aux_description_string_properties)
                                       ''mandatory'' aux_description_string_properties ''String''] full_name')
             else Children st [] full_name)
          else Children st [] full_name)"

definition expand :: "definitions \<Rightarrow> processor \<Rightarrow> string list \<Rightarrow> schema \<Rightarrow> prepared \<Rightarrow> plan" where
  "expand defs st local_stack_refs details p =
     (case s_ref details of
        Some ref \<Rightarrow> expand_ref defs st local_stack_refs p ref
      | None \<Rightarrow>
          (case s_items details of
             Some items \<Rightarrow> expand_items defs st local_stack_refs p items
           | None \<Rightarrow>
               (case s_additionalProperties details of
                  Some additional_properties \<Rightarrow> expand_additional defs st local_stack_refs p additional_properties
                | None \<Rightarrow> Children st [] (p_full_name p))))"

subsection \<open>\<^verbatim>\<open>parse_properties\<close>: value choices and the child of a coerced feature\<close>

text \<open>
  The loop \<^verbatim>\<open>for value in extracted_values\<close> runs over a Python set. The order in which a
  set of strings is visited is not fixed by its elements (it follows their hash values,
  which change from one run of the interpreter to the next); the model takes it as the
  parameter \<open>order\<close>, which lists the elements of a set.
\<close>

definition value_feature :: "string \<Rightarrow> string \<Rightarrow> feature list" where
  "value_feature full_name value0 =
     (let bool_default_value = py_in ''{default'' value0;
          v = (if bool_default_value then py_replace '' {default}'' [] value0 else value0);
          full_name_value = full_name @ ''_'' @ v;
          aux_description_value = ''Specific value: '' @ v
      in if py_in ''_Healthy'' full_name_value then []
         else [leaf (if bool_default_value
                     then full_name_value @ '' {default, doc '' @ [sq] @ aux_description_value @ [sq] @ ''}''
                     else full_name_value @ doc aux_description_value)
                 ''alternative'' aux_description_value []])"

definition is_coerced_name :: "string \<Rightarrow> string \<Rightarrow> bool" where
  "is_coerced_name full_name description =
     (any_in boolean_keywords full_name
      \<or> (\<exists>keyword \<in> set boolean_keywords_regex. re_search keyword full_name \<noteq> None)
      \<or> (any_in special_features_config full_name \<and> py_in ''Note that this field cannot be set when'' description))"

text \<open>
  \<open>values_or_original\<close> gives the children to append, the name after this step and the
  type the feature is serialized with.
\<close>

definition values_or_original ::
  "(string set \<Rightarrow> string list) \<Rightarrow> processor \<Rightarrow> prepared \<Rightarrow> string \<Rightarrow> feature list \<times> string \<times> string" where
  "values_or_original order st p full_name =
     (case p_extracted_values p of
        Some extracted_values \<Rightarrow>
          (let full_name' = without_cardinality full_name
           in (concat (map (value_feature full_name') (order extracted_values)), full_name', []))
      | None \<Rightarrow>
          if is_coerced_name full_name (p_description p) then
            (let full_name' = py_replace '' {abstract}'' [] full_name;
                 original = feature_aux_original_type st;
                 aux_description_mandatory =
                   ''Added String mandatory for changing booleans of boolean_keywords: '' @ original @ '' *_name''
             in if original = ''String'' \<or> original = ''string'' then
                  ([leaf (full_name' @ ''_nameStr'' @ doc aux_description_mandatory) ''mandatory''
                      aux_description_mandatory ''String''], full_name', p_type_data p)
                else if original = ''Integer'' \<or> original = ''integer'' then
                  ([leaf (full_name' @ ''_valueInt'' @ doc aux_description_mandatory) ''mandatory''
                      aux_description_mandatory ''Integer''], full_name', p_type_data p)
                else ([], full_name', p_type_data p))
          else ([], full_name, p_type_data p))"

subsection \<open>\<^verbatim>\<open>parse_properties\<close>: the loop\<close>

text \<open>
  The state of one call: the processor, the list \<^verbatim>\<open>local_stack_refs\<close> (one Python list,
  shared by a call and the calls it makes, so it is passed in and handed back), the two
  local variables that outlive an iteration, and the two result lists. The queue of the
  source only ever holds the tuple of the call, so the \<^verbatim>\<open>while\<close> loop runs once and the
  \<^verbatim>\<open>for\<close> loop over the properties is the whole call; \<^verbatim>\<open>depth\<close> is passed on and never
  read.
\<close>

record call_state =
  processor_of :: processor
  local_stack_refs :: "string list"
  abstract_bool :: bool
  cleaned_description :: "string option"
  mandatory_features :: "feature list"
  optional_features :: "feature list"

definition enter :: "processor \<Rightarrow> string list \<Rightarrow> call_state" where
  \<comment> \<open>the state at the start of a call\<close>
  "enter st stack = \<lparr>processor_of = st, local_stack_refs = stack, abstract_bool = False,
     cleaned_description = None, mandatory_features = [], optional_features = []\<rparr>"

definition returned :: "call_state \<Rightarrow> feature list" where
  \<comment> \<open>\<^verbatim>\<open>sub_mandatory + sub_optional\<close>\<close>
  "returned c = mandatory_features c @ optional_features c"

definition add_feature :: "call_state \<Rightarrow> prepared \<Rightarrow> string \<Rightarrow> feature list \<Rightarrow> string \<Rightarrow> call_state" where
  \<comment> \<open>the end of the loop body: the feature joins its list and the name is marked\<close>
  "add_feature c p type_data children full_name =
     (let feature = Feature (p_feature_name p) (p_feature_type p) (p_description p) children type_data;
          st = processor_of c
      in (if p_feature_type p = ''mandatory''
          then c\<lparr>mandatory_features := mandatory_features c @ [feature]\<rparr>
          else c\<lparr>optional_features := optional_features c @ [feature]\<rparr>)
         \<lparr>processor_of := st\<lparr>processed_features := insert full_name (processed_features st)\<rparr>\<rparr>)"

text \<open>
  A call that does not return is \<open>None\<close>; a call that raises is \<open>Some (Inl e)\<close>.
\<close>

partial_function (option) parse_loop ::
  "definitions \<Rightarrow> (string set \<Rightarrow> string list) \<Rightarrow> string list \<Rightarrow> string \<Rightarrow> (string \<times> schema) list
     \<Rightarrow> call_state \<Rightarrow> (error + call_state) option" where
  "parse_loop defs order current_required current_parent properties c =
     (case properties of
        [] \<Rightarrow> Some (Inr c)
      | (prop, details) # rest \<Rightarrow>
          if qualified_name current_parent prop \<in> processed_features (processor_of c)
          then parse_loop defs order current_required current_parent rest c
          else
            (case prepare (processor_of c) current_parent current_required (abstract_bool c)
                    (cleaned_description c) prop details of
               Inl e \<Rightarrow> Some (Inl e)
             | Inr (p, st1, abstract_bool', cleaned_description') \<Rightarrow>
                 (let c1 = c\<lparr>processor_of := st1, abstract_bool := abstract_bool',
                              cleaned_description := cleaned_description'\<rparr>
                  in Option.bind
                       (case expand defs st1 (local_stack_refs c) details p of
                          Skip \<Rightarrow> Some (Inr None)
                        | Fail e \<Rightarrow> Some (Inl e)
                        | Children st2 children full_name \<Rightarrow>
                            Some (Inr (Some (c1\<lparr>processor_of := st2\<rparr>, children, full_name)))
                        | Descend st2 ref sub_properties sub_required extra \<Rightarrow>
                            Option.bind
                              (parse_loop defs order sub_required (p_full_name p) sub_properties
                                 (enter st2 (local_stack_refs c @ [ref])))
                              (\<lambda>r. Some (case r of
                                      Inl e \<Rightarrow> Inl e
                                    | Inr sub \<Rightarrow>
                                        Inr (Some (c1\<lparr>processor_of := processor_of sub,
                                                       local_stack_refs := butlast (local_stack_refs sub)\<rparr>,
                                                   returned sub @ extra, p_full_name p)))))
                       (\<lambda>expanded. case expanded of
                          Inl e \<Rightarrow> Some (Inl e)
                        | Inr None \<Rightarrow> parse_loop defs order current_required current_parent rest c1
                        | Inr (Some (c2, children, full_name)) \<Rightarrow>
                            (case values_or_original order (processor_of c2) p full_name of
                               (added, full_name', type_data) \<Rightarrow>
                                 Option.bind
                                   (case s_properties details of
                                      None \<Rightarrow> Some (Inr (c2, []))
                                    | Some sub_properties \<Rightarrow>
                                        Option.bind
                                          (parse_loop defs order (schema_required details) (strip_braces full_name')
                                             sub_properties (enter (processor_of c2) (local_stack_refs c2)))
                                          (\<lambda>r. Some (case r of
                                                  Inl e \<Rightarrow> Inl e
                                                | Inr sub \<Rightarrow>
                                                    Inr (c2\<lparr>processor_of := processor_of sub,
                                                             local_stack_refs := local_stack_refs sub\<rparr>,
                                                         returned sub))))
                                   (\<lambda>nested. case nested of
                                      Inl e \<Rightarrow> Some (Inl e)
                                    | Inr (c3, sub_features) \<Rightarrow>
                                        parse_loop defs order current_required current_parent rest
                                          (add_feature c3 p type_data (children @ added @ sub_features) full_name')))))))"

text \<open>
  \<open>parse_properties\<close> is a call with a fresh pair of result lists. Its result holds the two
  lists the Python function returns, the processor after the call and the list
  \<^verbatim>\<open>local_stack_refs\<close> after the call (a call without that argument starts from \<open>[]\<close>).
\<close>

definition parse_properties ::
  "definitions \<Rightarrow> (string set \<Rightarrow> string list) \<Rightarrow> processor \<Rightarrow> (string \<times> schema) list \<Rightarrow> string list
     \<Rightarrow> string \<Rightarrow> string list \<Rightarrow> (error + call_state) option" where
  "parse_properties defs order st properties required parent_name stack =
     parse_loop defs order required parent_name properties (enter st stack)"

subsection \<open>The serializer and the run of the script\<close>











section \<open>Notions used to state the claims\<close>

text \<open>The names of all nodes of a tree, parents before children.\<close>

fun all_names :: "feature \<Rightarrow> string list" where
  "all_names (Feature name type description sub_features type_data) = name # concat (map all_names sub_features)"

text \<open>
  Two admissible iteration orders of a set of strings: ascending and descending in the
  order of the code points.
\<close>

definition ascending :: "string set \<Rightarrow> string list" where
  "ascending S = sorted_list_of_set S"


text \<open>Schemas with a single key, and with two, to write documents down.\<close>

definition no_keys :: schema where
  "no_keys = Schema None None None None None None None None None False"

definition of_type :: "string \<Rightarrow> schema" where
  "of_type t = Schema None (Some t) None None None None None None None False"



definition ref_to :: "string \<Rightarrow> schema" where
  "ref_to r = Schema None None (Some r) None None None None None None False"

definition with_properties :: "(string \<times> schema) list \<Rightarrow> schema" where
  "with_properties ps = Schema None None None None None (Some ps) None None None False"

text \<open>
  All the references that occur in a schema, and the size of a list of properties: the
  two quantities the termination argument of \<open>parse_loop\<close> is about.
\<close>

fun schema_refs :: "schema \<Rightarrow> string set" where
  "schema_refs (Schema d t r i a p q e alternatives m) =
     set_option r
     \<union> (case i of None \<Rightarrow> {} | Some s \<Rightarrow> schema_refs s)
     \<union> (case a of None \<Rightarrow> {} | Some s \<Rightarrow> schema_refs s)
     \<union> (case p of None \<Rightarrow> {} | Some ps \<Rightarrow> (\<Union>x \<in> set ps. schema_refs (snd x)))
     \<union> (case alternatives of None \<Rightarrow> {} | Some ss \<Rightarrow> (\<Union>s \<in> set ss. schema_refs s))"

definition refs_within :: "string set \<Rightarrow> (string \<times> schema) list \<Rightarrow> bool" where
  "refs_within R ps = list_all (\<lambda>x. schema_refs (snd x) \<subseteq> R) ps"

definition properties_size :: "(string \<times> schema) list \<Rightarrow> nat" where
  "properties_size ps = size_list (\<lambda>x. size (snd x)) ps"

text \<open>The descriptions and documents at which the claims are evaluated.\<close>

definition services_plain :: string where
  "services_plain = ''Services can be \"NodePort\", \"ClusterIP\", \"None\", \"LoadBalancer\", \"ExternalName\"''"

definition services_with_default :: string where
  "services_with_default =
     ''Defaults to ClusterIP. Services can be \"NodePort\", \"ClusterIP\", \"None\", \"LoadBalancer\", \"ExternalName\"''"

definition two_paths_document :: definitions where
  \<comment> \<open>the definition \<^verbatim>\<open>B\<close> has one property, the array \<^verbatim>\<open>c\<close>\<close>
  "two_paths_document = [(''B'', with_properties [(''c'', of_type ''array'')])]"

definition two_paths_properties :: "(string \<times> schema) list" where
  \<comment> \<open>\<^verbatim>\<open>b\<close> refers to \<^verbatim>\<open>B\<close>, and \<^verbatim>\<open>b_c\<close> is an array: two ways to the path \<^verbatim>\<open>A_b_c\<close>\<close>
  "two_paths_properties = [(''b'', ref_to ''#/definitions/B''), (''b_c'', of_type ''array'')]"






section \<open>Code equations of the character predicates\<close>

declare parse_loop.simps [code]

lemma is_upper_code [code]: "is_upper c = is_upper_bits c"
  by (cases c) (auto simp: is_upper_def ord_def letter_low_def low_0_to_10_def low_1_to_15_def)

lemma is_lower_code [code]: "is_lower c = is_lower_bits c"
  by (cases c) (auto simp: is_lower_def ord_def letter_low_def low_0_to_10_def low_1_to_15_def)

lemma is_space_code [code]: "is_space c = is_space_bits c"
  by (cases c) (auto simp: is_space_def ord_def)

lemma is_decimal_code [code]: "is_decimal c = is_decimal_bits c"
  by (cases c) (auto simp: is_decimal_def ord_def)

lemma is_digit_char_code [code]: "is_digit_char c = is_digit_char_bits c"
  by (cases c) (auto simp: is_digit_char_def ord_def)

lemma is_ascii_letter_code [code]: "is_ascii_letter c = is_ascii_letter_bits c"
  by (cases c) (auto simp: is_ascii_letter_def ord_def letter_low_def low_0_to_10_def low_1_to_15_def)

lemma is_word_code [code]: "is_word c = is_word_bits c"
  by (cases c) (auto simp: is_word_def ord_def letter_low_def low_0_to_10_def low_1_to_15_def)

lemma is_ascii_code [code]: "is_ascii c = is_ascii_bits c"
  by (cases c) (auto simp: is_ascii_def ord_def)

section \<open>Constraint synthesis: the claims\<close>


text \<open>
  C3. When the trigger phrase of \<open>extract_minimum_value\<close> occurs in the description and
  none of its patterns matches, the function is to raise. At the description
  \<^verbatim>\<open>Minimum value is unknown\<close> the trigger phrase is present, the pattern for the number
  does not match, and the function returns the empty string: the variable
  \<^verbatim>\<open>uvl_rule\<close> starts as the empty string, never as \<^verbatim>\<open>None\<close>, so the final \<^verbatim>\<open>raise\<close> is
  never reached. Called through \<open>convert_to_uvl_constraints\<close> the record yields the empty
  rule and no error.
\<close>

theorem extract_minimum_value_returns_silently:
  "py_in ''Minimum value is'' ''Minimum value is unknown''
   \<and> re_search value_minimum_pattern ''Minimum value is unknown'' = None
   \<and> extract_minimum_value ''Minimum value is unknown'' ''spec_port'' = Inr []
   \<and> convert_to_uvl_constraints ''spec_port'' ''Minimum value is unknown'' ''Integer'' 0 = Inr (Some [], 0)"
  by code_simp

text \<open>
  C5. The description \<^verbatim>\<open>Required when strategy is set to "Webhook"\<close> on the feature
  \<^verbatim>\<open>x_y_clientConfig\<close> is to give \<^verbatim>\<open>x_y_strategy_Webhook => x_y_clientConfig\<close>. The pattern
  for this phrase matches, but the rule is only built when the phrase
  \<^verbatim>\<open>must be unset when\<close> matches as well; the branch for the phrase alone requires the
  back-quoted form. The function returns the empty string.
\<close>

theorem required_when_plain_phrase_gives_no_rule:
  "re_search required_when_pattern ''Required when strategy is set to \"Webhook\"''
     = Some (''Required when strategy is set to \"Webhook\"'', [''strategy'', ''Webhook''])
   \<and> extract_constraints_required_when ''Required when strategy is set to \"Webhook\"'' ''x_y_clientConfig'' = []
   \<and> convert_to_uvl_constraints ''x_y_clientConfig'' ''Required when strategy is set to \"Webhook\"'' ''Boolean'' 0
       = Inr (Some [], 0)"
  by code_simp



text \<open>
  C9. Every record is to end either as an emitted constraint or in the counter of the
  final message. A Boolean record whose description holds the trigger phrase
  \<^verbatim>\<open>Exactly one of\<close> without the back-quoted names gets the empty string as its rule: the
  empty string is not \<^verbatim>\<open>None\<close>, so the counter stays, and it is not true, so nothing is
  appended. One record, no constraint, count 0.
\<close>

theorem empty_rule_neither_emitted_nor_counted:
  "convert_to_uvl_constraints ''x_y_source'' ''Exactly one of these fields must be set.'' ''Boolean'' 0
     = Inr (Some [], 0)
   \<and> generar_constraintsDef
       [\<lparr>d_feature_name = ''x_y_source'', d_description = ''Exactly one of these fields must be set.'',
         d_type_data = ''Boolean''\<rparr>] 0
     = Inr ([], 0)"
  by code_simp

section \<open>The description classifier and the value sets: the claims\<close>

text \<open>
  C4. A description of ten characters or more, seen for the first time, is to go on to
  the trigger phrases. \<open>categorize_description\<close> hands its two arguments to
  \<open>is_valid_description\<close> in the other order, so the length that is tested is the length of
  the feature name. The description \<^verbatim>\<open>Minimum value is 1024\<close> (21 characters, a trigger
  phrase of the catalogue) on the feature \<^verbatim>\<open>spec_port\<close> (9 characters) is rejected by a
  fresh processor and leaves no record.
\<close>

theorem long_description_rejected_for_short_name:
  "10 \<le> length ''Minimum value is 1024''
   \<and> re_search restrictions_pattern ''Minimum value is 1024'' \<noteq> None
   \<and> categorize_description new_processor ''Minimum value is 1024'' ''spec_port'' ''Integer''
       = (False, new_processor)"
  by code_simp

lemma card_case_not_none: "card case_not_none = 5"
  by code_simp

text \<open>
  C7, as the claim states it. The description \<open>services_plain\<close> passes the keyword test,
  its candidate values are exactly \<^verbatim>\<open>NodePort\<close>, \<^verbatim>\<open>ClusterIP\<close>, \<^verbatim>\<open>None\<close>, \<^verbatim>\<open>LoadBalancer\<close>,
  \<^verbatim>\<open>ExternalName\<close>, and \<open>extract_values\<close> returns all five, \<^verbatim>\<open>None\<close> included: the set the
  code compares with holds \<^verbatim>\<open>ClusterIP {default}\<close>, not \<^verbatim>\<open>ClusterIP\<close>.
\<close>

theorem plain_service_types_keep_None:
  "candidate_values services_plain = [''NodePort'', ''ClusterIP'', ''None'', ''LoadBalancer'', ''ExternalName'']
   \<and> extract_values services_plain
       = Some (set [''NodePort'', ''ClusterIP'', ''None'', ''LoadBalancer'', ''ExternalName''])"
  by code_simp

text \<open>
  C7, amended. \<open>extract_values\<close> returns no set when the candidate values are none or a
  single distinct one; and a description that passes the keyword test and whose candidate
  set is \<^verbatim>\<open>NodePort\<close>, \<^verbatim>\<open>ClusterIP {default}\<close>, \<^verbatim>\<open>None\<close>, \<^verbatim>\<open>LoadBalancer\<close>, \<^verbatim>\<open>ExternalName\<close>
  (\<^verbatim>\<open>ClusterIP\<close> carrying the mark of the default value) yields that set without \<^verbatim>\<open>None\<close>.
\<close>

theorem degenerate_sets_and_spurious_None:
  "(card (set (candidate_values description)) \<le> 1 \<longrightarrow> extract_values description = None)
   \<and> ((any_in palabras_patrones_minus (py_lower description) \<or> any_in palabras_patrones_may description) \<longrightarrow>
        set (candidate_values description) = case_not_none \<longrightarrow>
        extract_values description = Some (case_not_none - {''None''}))"
proof (intro conjI impI)
  assume "card (set (candidate_values description)) \<le> 1"
  then have "set (candidate_values description) = {} \<or> card (set (candidate_values description)) = 1"
    by (cases "card (set (candidate_values description))") auto
  then show "extract_values description = None"
    by (auto simp: extract_values_def Let_def)
next
  assume gate: "any_in palabras_patrones_minus (py_lower description) \<or> any_in palabras_patrones_may description"
    and eq: "set (candidate_values description) = case_not_none"
  have "case_not_none \<noteq> {}" "card case_not_none \<noteq> 1"
    using card_case_not_none by auto
  with gate eq show "extract_values description = Some (case_not_none - {''None''})"
    by (auto simp: extract_values_def Let_def)
qed

theorem degenerate_sets_and_spurious_None_witness:
  "card (set (candidate_values ''Supports \"A\"'')) \<le> 1
   \<and> extract_values ''Supports \"A\"'' = None
   \<and> any_in palabras_patrones_may services_with_default
   \<and> set (candidate_values services_with_default) = case_not_none
   \<and> extract_values services_with_default
       = Some (set [''NodePort'', ''ClusterIP {default}'', ''LoadBalancer'', ''ExternalName''])"
proof -
  have one: "candidate_values ''Supports \"A\"'' = [''A'']"
    by code_simp
  have gate: "any_in palabras_patrones_may services_with_default"
    by code_simp
  have cands: "candidate_values services_with_default
                 = [''NodePort'', ''ClusterIP {default}'', ''None'', ''LoadBalancer'', ''ExternalName'']"
    by code_simp
  have eq: "set (candidate_values services_with_default) = case_not_none"
    unfolding cands case_not_none_def ..
  have rest: "case_not_none - {''None''} = set [''NodePort'', ''ClusterIP {default}'', ''LoadBalancer'', ''ExternalName'']"
    by code_simp
  from degenerate_sets_and_spurious_None [of "''Supports \"A\"''"] one
  have none: "extract_values ''Supports \"A\"'' = None"
    by simp
  from degenerate_sets_and_spurious_None [of services_with_default] gate eq
  have "extract_values services_with_default = Some (case_not_none - {''None''})"
    by simp
  with one none gate eq rest show ?thesis
    by simp
qed

section \<open>The tree builder: the claims\<close>

text \<open>
  C1. Every qualified path is to occur at most once in the tree, because a path is
  marked when its property has been processed and a marked path is skipped. The test at
  the head of the loop body looks the qualified path up, but the name that is marked at
  the end is the variable \<^verbatim>\<open>full_name\<close> after the body has rewritten it, and for an array
  that is the path followed by \<^verbatim>\<open> cardinality [1..*]\<close>. In the document below the path
  \<^verbatim>\<open>A_b_c\<close> is reached through the reference of \<^verbatim>\<open>b\<close> and again as the property \<^verbatim>\<open>b_c\<close>; the
  second visit is not skipped, the tree holds the node twice, and the path itself is
  never in the set of processed names.
\<close>

theorem array_path_emitted_twice:
  "map_option (map_sum id (\<lambda>c. (concat (map all_names (returned c)), processed_features (processor_of c))))
     (parse_properties two_paths_document ascending new_processor two_paths_properties [] ''A'' [])
   = Some (Inr ([''A_b'', ''A_b_c cardinality [1..*]'', ''A_b_c cardinality [1..*]''],
                set [''A_b'', ''A_b_c cardinality [1..*]'']))"
  by code_simp

section \<open>The order of the value choices: the claims\<close>






section \<open>Fields coerced to Boolean: the claims\<close>












end
